theory Spec2Isabelle
  imports Main "HOL-Library.Word" "HOL-Library.Signed_Division"
begin

section \<open>The multi-GPU GPT example driver\<close>

text \<open>
  A shallow embedding of \<^verbatim>\<open>multi_gpu_gpt_example\<close> of
  \<^verbatim>\<open>examples/cpp/multi_gpu_gpt/multi_gpu_gpt_example.cc\<close>. The function is a straight
  line of calls into MPI, NCCL, CUDA and the decode engine, interrupted by checks that
  end the process. A run is modelled by the list of calls it makes, in program order,
  and by the way it ends.
\<close>

subsection \<open>Machine integers\<close>

text \<open>
  \<^verbatim>\<open>int\<close> is a 32-bit two's complement value (read with \<open>sint\<close>), \<^verbatim>\<open>size_t\<close> a 64-bit
  unsigned one (read with \<open>unat\<close>). Unsigned arithmetic wraps around. Signed overflow
  and division by zero have no defined result in C++: the operations below return
  \<open>None\<close> there, and a run that evaluates one ends as \<open>Undefined\<close>.
\<close>

type_synonym cint = "32 word"
type_synonym csize = "64 word"

definition int_in_range :: "int \<Rightarrow> bool" where
  "int_in_range k = (- (2 ^ 31) \<le> k \<and> k < 2 ^ 31)"

definition int_add :: "cint \<Rightarrow> cint \<Rightarrow> cint option" where
  "int_add a b = (if int_in_range (sint a + sint b) then Some (a + b) else None)"

definition int_mul :: "cint \<Rightarrow> cint \<Rightarrow> cint option" where
  "int_mul a b = (if int_in_range (sint a * sint b) then Some (a * b) else None)"

text \<open>\<^verbatim>\<open>/\<close> and \<^verbatim>\<open>%\<close> on \<^verbatim>\<open>int\<close> truncate towards zero.\<close>

definition int_div :: "cint \<Rightarrow> cint \<Rightarrow> cint option" where
  "int_div a b =
     (if b = 0 \<or> \<not> int_in_range (sint a sdiv sint b) then None
      else Some (word_of_int (sint a sdiv sint b)))"

definition int_mod :: "cint \<Rightarrow> cint \<Rightarrow> cint option" where
  "int_mod a b =
     (if b = 0 \<or> \<not> int_in_range (sint a sdiv sint b) then None
      else Some (word_of_int (sint a smod sint b)))"

definition size_div :: "csize \<Rightarrow> csize \<Rightarrow> csize option" where
  "size_div a b = (if b = 0 then None else Some (a div b))"

definition size_mod :: "csize \<Rightarrow> csize \<Rightarrow> csize option" where
  "size_mod a b = (if b = 0 then None else Some (a mod b))"

text \<open>
  The conversions the compiler inserts: \<^verbatim>\<open>int\<close> to \<^verbatim>\<open>size_t\<close> extends the sign and reads
  the result as unsigned, \<^verbatim>\<open>size_t\<close> to \<^verbatim>\<open>int\<close> keeps the low 32 bits.
\<close>

definition size_of_int :: "cint \<Rightarrow> csize" where
  "size_of_int a = scast a"

definition int_of_size :: "csize \<Rightarrow> cint" where
  "int_of_size a = ucast a"

subsection \<open>Configuration and environment\<close>

text \<open>
  The values \<^verbatim>\<open>multi_gpu_gpt_example\<close> reads from the INI file, at the types of the
  constants it stores them in. The floating-point sampling parameters and the two path
  strings are only handed on to the engine and are left out.
\<close>

record config =
  is_half :: bool
  max_batch_size :: csize
  max_seq_len :: csize
  beam_width :: csize
  top_k :: cint
  tensor_para_size :: cint
  pipeline_para_size :: cint
  head_num :: csize
  size_per_head :: csize
  vocab_size :: csize
  decoder_layers :: csize
  request_batch_size :: csize
  request_output_len :: cint

definition hidden_units :: "config \<Rightarrow> csize" where
  "hidden_units cfg = head_num cfg * size_per_head cfg"

definition inter_size :: "config \<Rightarrow> csize" where
  "inter_size cfg = 4 * hidden_units cfg"

definition start_id :: cint where
  "start_id = 50256"

definition end_id :: cint where
  "end_id = 50256"

text \<open>The checking macros of the source, and the place of one use: macro and line.\<close>

datatype macro = FT_CHECK | MPICHECK | check_cuda_error | NCCLCHECK

text \<open>
  What the world outside the function gives this process: the answers of MPI and CUDA,
  what \<^verbatim>\<open>read_start_ids\<close> leaves in \<^verbatim>\<open>max_input_len\<close>, \<^verbatim>\<open>v_start_lengths\<close> and
  \<^verbatim>\<open>v_start_ids\<close>, the seed that the broadcast delivers, whether the result file can
  be opened, the output ids the device holds after the warm-up, the two clock readings,
  and for each checked call whether it succeeds.
\<close>

record env =
  rank :: cint
  world_size :: cint
  device_count :: cint
  device :: cint
  prop_name :: string
  rank_tensor_parallel :: cint
  rank_pipeline_parallel :: cint
  file_max_input_len :: cint
  file_start_lengths :: "cint list"
  file_start_ids :: "cint list"
  bcast_seed :: csize
  outFile_is_open :: bool
  output_ids :: "nat \<Rightarrow> cint"
  tv_start :: "csize \<times> csize"
  tv_end :: "csize \<times> csize"
  call_ok :: "macro \<Rightarrow> nat \<Rightarrow> bool"

subsection \<open>Calls and outcomes\<close>

datatype comm = MPI_COMM_WORLD | grid_comm | comm_tensor_parallel | comm_pipeline_parallel

datatype nccl = tensor_para | pipeline_para

datatype buffer = Input_ids | Input_lengths | Output_ids | Parent_ids | Sequence_lengths

text \<open>
  A pointer is null, a device array obtained from \<^verbatim>\<open>deviceMalloc\<close> (named by what
  the array holds), or the address of the host variable \<^verbatim>\<open>total_output_len\<close>, written
  with the value stored there. Modelled from the spec: \<^verbatim>\<open>deviceMalloc\<close>, which is not in
  the source at hand, leaves a device-resident array in its first argument (section 3).
\<close>

datatype ptr = nullptr | Dev buffer | Host_total_output_len cint

datatype memory = MEMORY_CPU | MEMORY_GPU

datatype dtype = TYPE_INT32 | TYPE_FP32

record tensor =
  mem :: memory
  dtype :: dtype
  shape :: "csize list"
  data :: ptr

definition Tensor :: "memory \<Rightarrow> dtype \<Rightarrow> csize list \<Rightarrow> ptr \<Rightarrow> tensor" where
  "Tensor m t s d = \<lparr>mem = m, dtype = t, shape = s, data = d\<rparr>"

datatype arg = I cint | L csize | S string
  | Elapsed_ms "csize \<times> csize" "csize \<times> csize" cint

datatype pass = warmup | measured

datatype timevar = tv_start_var | tv_end_var

datatype event =
    MPI_Comm_rank comm
  | MPI_Comm_size comm
  | Printf string "arg list"
  | Cout "arg list"
  | CudaGetDeviceCount
  | CudaSetDevice cint
  | CudaGetDevice
  | CudaGetDeviceProperties cint
  | MPI_Cart_create comm "cint list" "cint list" cint
  | MPI_Cart_sub comm "bool list" comm
  | NcclGetUniqueId nccl
  | MPI_Bcast_uid nccl cint comm
  | NcclCommInitRank nccl cint cint
  | Read_start_ids csize cint csize string
  | DeviceMalloc buffer csize
  | CudaH2Dcpy buffer "cint list" csize
  | CudaStreamCreate
  | CublasCreate
  | CublasLtCreate
  | CublasSetStream
  | New_cublasAlgoMap string
  | New_allocator
  | New_cublas_wrapper_mutex
  | New_cublasMMWrapper
  | SetGemmConfig
  | SetFP32GemmConfig
  | New_ParallelGptWeight "csize list" "cint list"
  | LoadModel
  | MPI_Bcast_seed cint comm
  | New_ParallelGpt "csize list" "cint list" "csize option"
  | Print_mem_usage
  | CudaDeviceSynchronize
  | MPI_Barrier comm
  | CudaProfilerStart
  | CudaProfilerStop
  | Nvtx_setScope string
  | Nvtx_resetScope
  | PUSH_RANGE string
  | POP_RANGE
  | Forward pass "tensor list" "tensor list"
  | Ofstream_open string
  | New_hBuf csize
  | CudaD2Hcpy buffer csize
  | OutFile "arg list"
  | Delete_hBuf
  | Gettimeofday timevar
  | NcclCommDestroy nccl
  | Delete_cublas_algo_map
  | Delete_cublas_wrapper_mutex

text \<open>
  What stops a run before the function returns: a call of \<^verbatim>\<open>exit\<close> with a status, a
  checking macro (named by the macro and the source line of its use), or an expression
  without defined behaviour.
\<close>

datatype stop = Exit int | Aborted macro nat | Undefined

datatype outcome = Returned | Stopped stop

subsection \<open>Sequencing\<close>

text \<open>
  A piece of the function either goes on with a value or halts the process; both carry
  the calls made on the way.
\<close>

datatype 'a step = Go 'a "event list" | Halt stop "event list"

definition and_then :: "'a step \<Rightarrow> ('a \<Rightarrow> 'b step) \<Rightarrow> 'b step" where
  "and_then m f =
     (case m of
        Halt h es \<Rightarrow> Halt h es
      | Go x es \<Rightarrow>
          (case f x of
             Halt h es' \<Rightarrow> Halt h (es @ es')
           | Go y es' \<Rightarrow> Go y (es @ es')))"

definition emit :: "event list \<Rightarrow> unit step" where
  "emit es = Go () es"

definition defined :: "'a option \<Rightarrow> 'a step" where
  "defined x = (case x of None \<Rightarrow> Halt Undefined [] | Some v \<Rightarrow> Go v [])"

text \<open>
  Modelled from the spec: the macros \<^verbatim>\<open>MPICHECK\<close>, \<^verbatim>\<open>check_cuda_error\<close> and \<^verbatim>\<open>NCCLCHECK\<close>,
  whose definitions are in headers outside the source at hand. The specification calls
  them abort-on-error checks around collective and device calls (sections 4.2, 7 and
  9): the call is made, and when it reports an error the process ends there. Whether a
  call succeeds is a parameter, \<open>call_ok\<close>.
\<close>

definition checked :: "env \<Rightarrow> macro \<Rightarrow> nat \<Rightarrow> event \<Rightarrow> unit step" where
  "checked e m line ev = (if call_ok e m line then Go () [ev] else Halt (Aborted m line) [ev])"

text \<open>
  Modelled from the spec: the macro \<^verbatim>\<open>FT_CHECK\<close>, defined outside the source at hand. A
  violated model-shape invariant is fatal (sections 4.1 and 7), so \<^verbatim>\<open>FT_CHECK(cond)\<close> ends
  the process when the condition is false. What it prints is not known here; the run
  records the macro and its line.
\<close>

definition ft_check :: "nat \<Rightarrow> bool \<Rightarrow> unit step" where
  "ft_check line cond = (if cond then Go () [] else Halt (Aborted FT_CHECK line) [])"

fun trace :: "'a step \<Rightarrow> event list" where
  "trace (Go x es) = es"
| "trace (Halt h es) = es"

fun ending :: "'a step \<Rightarrow> outcome" where
  "ending (Go x es) = Returned"
| "ending (Halt h es) = Stopped h"

subsection \<open>Start-up checks (lines 101 to 134)\<close>

text \<open>
  Lines 101 and 102. \<^verbatim>\<open>head_num\<close> and \<^verbatim>\<open>decoder_layers\<close> are \<^verbatim>\<open>size_t\<close>, so the \<^verbatim>\<open>int\<close>
  divisor is converted to \<^verbatim>\<open>size_t\<close> and the remainder is the unsigned one.
\<close>

definition check_model_shape :: "config \<Rightarrow> unit step" where
  "check_model_shape cfg =
     and_then (defined (size_mod (head_num cfg) (size_of_int (tensor_para_size cfg)))) (\<lambda>r.
     and_then (ft_check 101 (r = 0)) (\<lambda>_.
     and_then (defined (size_mod (decoder_layers cfg) (size_of_int (pipeline_para_size cfg)))) (\<lambda>r'.
     ft_check 102 (r' = 0))))"

text \<open>Lines 105 to 118: rank, world size and device.\<close>

definition query_devices :: "env \<Rightarrow> unit step" where
  "query_devices e =
     and_then (checked e MPICHECK 106 (MPI_Comm_rank MPI_COMM_WORLD)) (\<lambda>_.
     and_then (checked e MPICHECK 107 (MPI_Comm_size MPI_COMM_WORLD)) (\<lambda>_.
     and_then (emit (if rank e = 0
                     then [Printf ''Total ranks: %d.\<newline>'' [I (world_size e)]] else [])) (\<lambda>_.
     and_then (checked e check_cuda_error 110 CudaGetDeviceCount) (\<lambda>_.
     and_then (defined (int_mod (rank e) (device_count e))) (\<lambda>d.
     and_then (checked e check_cuda_error 111 (CudaSetDevice d)) (\<lambda>_.
     and_then (checked e check_cuda_error 112 CudaGetDevice) (\<lambda>_.
     and_then (checked e check_cuda_error 115 (CudaGetDeviceProperties (device e))) (\<lambda>_.
     emit [Printf ''Device %s\<newline>'' [S (prop_name e)],
           Printf ''P%d is runing with %d GPU.\<newline>'' [I (rank e), I (device e)]]))))))))"

text \<open>Lines 120 to 123.\<close>

definition fmt_world_size :: string where
  "fmt_world_size =
     ''[ERROR] tensor_para_size * pipeline_para_size should equal to world_size \<newline>''"

definition check_world_size :: "config \<Rightarrow> env \<Rightarrow> unit step" where
  "check_world_size cfg e =
     and_then (defined (int_mul (tensor_para_size cfg) (pipeline_para_size cfg))) (\<lambda>n.
     if n \<noteq> world_size e
     then Halt (Exit (- 1)) [Printf fmt_world_size []]
     else Go () [])"

text \<open>Lines 125 and 126: \<^verbatim>\<open>tensor_para_rank\<close> and \<^verbatim>\<open>pipeline_para_rank\<close>.\<close>

definition rank_coordinates :: "cint \<Rightarrow> cint \<Rightarrow> (cint \<times> cint) step" where
  "rank_coordinates tensor_size r =
     and_then (defined (int_mod r tensor_size)) (\<lambda>tensor_para_rank.
     and_then (defined (int_div r tensor_size)) (\<lambda>pipeline_para_rank.
     Go (tensor_para_rank, pipeline_para_rank) []))"

text \<open>
  Lines 127 to 134. The quotient is computed in \<^verbatim>\<open>size_t\<close> and stored in an \<^verbatim>\<open>int\<close>; the
  product and the comparison are in \<^verbatim>\<open>int\<close>.
\<close>

definition fmt_layers_per_group :: string where
  "fmt_layers_per_group =
     ''[ERROR] layers_per_group (%d) * pipeline_para_size (%d) should equal to decoder_layers (%ld) \<newline>''"

definition split_layers :: "config \<Rightarrow> cint step" where
  "split_layers cfg =
     and_then (defined (size_div (decoder_layers cfg) (size_of_int (pipeline_para_size cfg)))) (\<lambda>q.
     let layers_per_group = int_of_size q in
     and_then (defined (int_mul layers_per_group (pipeline_para_size cfg))) (\<lambda>n.
     if n \<noteq> int_of_size (decoder_layers cfg)
     then Halt (Exit (- 1))
       [Printf fmt_layers_per_group
          [I layers_per_group, I (pipeline_para_size cfg), L (decoder_layers cfg)]]
     else Go layers_per_group []))"

subsection \<open>Communicator groups (lines 143 to 178)\<close>

definition form_communicators :: "config \<Rightarrow> env \<Rightarrow> cint \<times> cint \<Rightarrow> unit step" where
  "form_communicators cfg e coords =
     and_then (emit
       [MPI_Cart_create MPI_COMM_WORLD [pipeline_para_size cfg, tensor_para_size cfg] [0, 0] 0,
        MPI_Cart_sub grid_comm [False, True] comm_tensor_parallel,
        MPI_Cart_sub grid_comm [True, False] comm_pipeline_parallel,
        MPI_Comm_rank comm_tensor_parallel,
        MPI_Comm_rank comm_pipeline_parallel]) (\<lambda>_.
     and_then (if rank_tensor_parallel e = 0
               then checked e NCCLCHECK 165 (NcclGetUniqueId tensor_para) else Go () []) (\<lambda>_.
     and_then (if rank_pipeline_parallel e = 0
               then checked e NCCLCHECK 169 (NcclGetUniqueId pipeline_para) else Go () []) (\<lambda>_.
     and_then (emit
       [MPI_Bcast_uid tensor_para 0 comm_tensor_parallel,
        MPI_Bcast_uid pipeline_para 0 comm_pipeline_parallel]) (\<lambda>_.
     and_then (checked e NCCLCHECK 176
       (NcclCommInitRank tensor_para (tensor_para_size cfg) (fst coords))) (\<lambda>_.
     checked e NCCLCHECK 177
       (NcclCommInitRank pipeline_para (pipeline_para_size cfg) (snd coords)))))))"

subsection \<open>Request buffers (lines 180 to 212)\<close>

record inputs =
  d_input_ids :: ptr
  d_input_lengths :: ptr
  max_input_len :: cint
  total_output_len :: cint

definition fmt_total_output_len :: string where
  "fmt_total_output_len =
     ''[ERROR] total_output_len (%d) should be <= max_seq_len (%ld). \<newline>''"

definition read_request :: "config \<Rightarrow> env \<Rightarrow> inputs step" where
  "read_request cfg e =
     and_then (emit
       [Read_start_ids (request_batch_size cfg) end_id (beam_width cfg)
          ''../examples/cpp/multi_gpu_gpt/start_ids.csv'']) (\<lambda>_.
     let max_input_len = file_max_input_len e in
     and_then
       (if max_input_len = 0 then Go (nullptr, nullptr) []
        else Go (Dev Input_ids, Dev Input_lengths)
          [DeviceMalloc Input_ids
             (request_batch_size cfg * beam_width cfg * size_of_int max_input_len),
           DeviceMalloc Input_lengths (request_batch_size cfg * beam_width cfg),
           CudaH2Dcpy Input_ids (file_start_ids e)
             (request_batch_size cfg * beam_width cfg * size_of_int max_input_len),
           CudaH2Dcpy Input_lengths (file_start_lengths e)
             (request_batch_size cfg * beam_width cfg)]) (\<lambda>(ids, lengths).
     and_then (defined (int_add max_input_len (request_output_len cfg))) (\<lambda>total_len.
     if sint total_len > sint (int_of_size (max_seq_len cfg))
     then Halt (Exit (- 1))
       [Printf fmt_total_output_len [I total_len, L (max_seq_len cfg)]]
     else Go \<lparr>d_input_ids = ids, d_input_lengths = lengths,
              max_input_len = max_input_len, total_output_len = total_len\<rparr> [])))"

subsection \<open>Engine construction (lines 214 to 280)\<close>

definition create_engine :: "config \<Rightarrow> env \<Rightarrow> cint \<times> cint \<Rightarrow> unit step" where
  "create_engine cfg e coords =
     and_then (emit
       [CudaStreamCreate, CublasCreate, CublasLtCreate, CublasSetStream,
        New_cublasAlgoMap ''gemm_config.in'', New_allocator, New_cublas_wrapper_mutex,
        New_cublasMMWrapper,
        (if is_half cfg then SetGemmConfig else SetFP32GemmConfig),
        New_ParallelGptWeight
          [hidden_units cfg, inter_size cfg, vocab_size cfg, decoder_layers cfg, max_seq_len cfg]
          [tensor_para_size cfg, fst coords, pipeline_para_size cfg, snd coords],
        LoadModel]) (\<lambda>_.
     and_then (if 1 < sint (world_size e)
               then checked e MPICHECK 250 (MPI_Bcast_seed 0 MPI_COMM_WORLD) else Go () []) (\<lambda>_.
     let random_seed =
       (if rank e = 0 then Some 0
        else if 1 < sint (world_size e) then Some (bcast_seed e) else None) in
     emit
       [New_ParallelGpt
          [0, 0, 0, beam_width cfg, head_num cfg, size_per_head cfg, inter_size cfg,
           decoder_layers cfg, vocab_size cfg]
          [start_id, end_id, top_k cfg, tensor_para_size cfg, fst coords,
           pipeline_para_size cfg, snd coords]
          random_seed]))"

subsection \<open>Output buffers and tensors (lines 282 to 310)\<close>

record tensors =
  output_tensors :: "tensor list"
  input_tensors :: "tensor list"

text \<open>Lines 289 to 310: the two tensor vectors handed to \<^verbatim>\<open>gpt.forward\<close>.\<close>

definition build_tensors :: "config \<Rightarrow> inputs \<Rightarrow> tensors" where
  "build_tensors cfg inp =
     (let batch = request_batch_size cfg; beam = beam_width cfg;
          total_len = size_of_int (total_output_len inp) in
      \<lparr>output_tensors =
         [Tensor MEMORY_GPU TYPE_INT32 [batch, beam, total_len] (Dev Output_ids),
          Tensor MEMORY_GPU TYPE_INT32 [total_len, batch, beam] (Dev Parent_ids),
          Tensor MEMORY_GPU TYPE_INT32 [batch, beam] (Dev Sequence_lengths),
          Tensor MEMORY_GPU TYPE_FP32
            [size_of_int (request_output_len cfg), batch, beam] nullptr],
       input_tensors =
         [Tensor MEMORY_GPU TYPE_INT32
            [batch * beam, size_of_int (max_input_len inp)] (d_input_ids inp),
          Tensor MEMORY_GPU TYPE_INT32 [batch * beam] (d_input_lengths inp),
          Tensor MEMORY_CPU TYPE_INT32 [1] (Host_total_output_len (total_output_len inp))]\<rparr>)"

text \<open>Lines 282 to 287 allocate the three output arrays; then the tensors are built.\<close>

definition make_tensors :: "config \<Rightarrow> inputs \<Rightarrow> tensors step" where
  "make_tensors cfg inp =
     (let batch = request_batch_size cfg; beam = beam_width cfg;
          total_len = size_of_int (total_output_len inp) in
      Go (build_tensors cfg inp)
         [DeviceMalloc Output_ids (batch * beam * total_len),
          DeviceMalloc Parent_ids (batch * beam * total_len),
          DeviceMalloc Sequence_lengths (batch * beam)])"

subsection \<open>Warm-up, result collection and the measured pass (lines 312 to 402)\<close>

text \<open>\<^verbatim>\<open>ite\<close> is set to 1 before both loops.\<close>

definition ite :: cint where
  "ite = 1"

definition forward_loop :: "pass \<Rightarrow> tensors \<Rightarrow> event list" where
  "forward_loop p ts = replicate (nat (sint ite)) (Forward p (output_tensors ts) (input_tensors ts))"

definition run_warmup :: "tensors \<Rightarrow> unit step" where
  "run_warmup ts =
     emit ([Print_mem_usage, CudaDeviceSynchronize, MPI_Barrier MPI_COMM_WORLD,
            CudaProfilerStart, Nvtx_setScope ''warmup_time'', PUSH_RANGE ''warmup time'']
           @ forward_loop warmup ts
           @ [CudaDeviceSynchronize, MPI_Barrier MPI_COMM_WORLD, POP_RANGE, Nvtx_resetScope])"

text \<open>
  The body of the loop of lines 347 to 358 at index \<open>i\<close>. The loop runs only when
  \<^verbatim>\<open>outCount\<close>, a multiple of \<^verbatim>\<open>total_output_len\<close>, is not zero, so the divisor is not zero.
\<close>

definition write_element :: "env \<Rightarrow> cint \<Rightarrow> nat \<Rightarrow> event list" where
  "write_element e total_len i =
     [OutFile [I (output_ids e i), S '' '']]
     @ (if (of_nat i + 1) mod size_of_int total_len = 0 then [OutFile [S ''\<newline>'']] else [])
     @ (if i < 10 then [Printf ''%5d '' [I (output_ids e i)]] else [])
     @ (if (of_nat i + 1) mod size_of_int total_len = 0 \<and> i < 10 then [Cout [S ''\<newline>'']] else [])"

text \<open>\<^verbatim>\<open>zeroCount\<close> is an \<^verbatim>\<open>int\<close> incremented once for every zero among the first \<open>n\<close> ids.\<close>

definition zero_count :: "env \<Rightarrow> nat \<Rightarrow> cint option" where
  "zero_count e n =
     (let k = length (filter (\<lambda>i. output_ids e i = 0) [0..<n])
      in if int_in_range (int k) then Some (of_nat k) else None)"

definition fmt_cannot_write :: string where
  "fmt_cannot_write = ''[WARNING] Cannot write results into output file %s \<newline>''"

definition collect_results :: "config \<Rightarrow> env \<Rightarrow> inputs \<Rightarrow> unit step" where
  "collect_results cfg e inp =
     (if rank e = 0 then
        and_then (emit [Ofstream_open ''out'']) (\<lambda>_.
        if \<not> outFile_is_open e
        then emit [Printf fmt_cannot_write [S ''out'']]
        else
          let outCount = size_of_int (total_output_len inp) * request_batch_size cfg
                         * beam_width cfg in
          and_then (emit
            ([New_hBuf outCount, CudaD2Hcpy Output_ids outCount,
              Cout [S ''Writing '', L outCount, S '' elements\<newline>'']]
             @ concat (map (write_element e (total_output_len inp)) [0..<unat outCount]))) (\<lambda>_.
          and_then (defined (zero_count e (unat outCount))) (\<lambda>zeroCount.
          emit [Cout [S ''\<newline>'', S ''zeroCount = '', I zeroCount, S ''\<newline>''], Delete_hBuf])))
      else Go () [])"

definition fmt_info :: string where
  "fmt_info =
     ''[INFO] request_batch_size %ld beam_width %ld head_num %ld size_per_head %ld total_output_len %d decoder_layers %ld vocab_size %ld FT-CPP-decoding-beamsearch-time %.2f ms\<newline>''"

definition run_measured :: "config \<Rightarrow> env \<Rightarrow> inputs \<Rightarrow> tensors \<Rightarrow> unit step" where
  "run_measured cfg e inp ts =
     emit ([MPI_Barrier MPI_COMM_WORLD, CudaDeviceSynchronize, Gettimeofday tv_start_var,
            Nvtx_setScope ''total_time'', PUSH_RANGE ''total time'']
           @ forward_loop measured ts
           @ [CudaDeviceSynchronize, MPI_Barrier MPI_COMM_WORLD, POP_RANGE, Nvtx_resetScope,
              Gettimeofday tv_end_var, CudaProfilerStop,
              Printf fmt_info
                [L (request_batch_size cfg), L (beam_width cfg), L (head_num cfg),
                 L (size_per_head cfg), I (total_output_len inp), L (decoder_layers cfg),
                 L (vocab_size cfg), Elapsed_ms (tv_start e) (tv_end e) ite],
              NcclCommDestroy tensor_para, NcclCommDestroy pipeline_para,
              Delete_cublas_algo_map, Delete_cublas_wrapper_mutex])"

subsection \<open>The whole function\<close>

definition multi_gpu_gpt_example :: "config \<Rightarrow> env \<Rightarrow> unit step" where
  "multi_gpu_gpt_example cfg e =
     and_then (check_model_shape cfg) (\<lambda>_.
     and_then (query_devices e) (\<lambda>_.
     and_then (check_world_size cfg e) (\<lambda>_.
     and_then (rank_coordinates (tensor_para_size cfg) (rank e)) (\<lambda>coords.
     and_then (split_layers cfg) (\<lambda>layers_per_group.
     and_then (form_communicators cfg e coords) (\<lambda>_.
     and_then (read_request cfg e) (\<lambda>inp.
     and_then (create_engine cfg e coords) (\<lambda>_.
     and_then (make_tensors cfg inp) (\<lambda>ts.
     and_then (run_warmup ts) (\<lambda>_.
     and_then (collect_results cfg e inp) (\<lambda>_.
     run_measured cfg e inp ts)))))))))))"

text \<open>
  For the proofs the function is read in three parts: the start-up up to the
  communicator groups (lines 101 to 178), the request (lines 180 to 212), and the
  generation (lines 214 to 402). \<open>run_in_parts\<close> below shows that the three parts in
  sequence are the function.
\<close>

definition startup :: "config \<Rightarrow> env \<Rightarrow> (cint \<times> cint) step" where
  "startup cfg e =
     and_then (check_model_shape cfg) (\<lambda>_.
     and_then (query_devices e) (\<lambda>_.
     and_then (check_world_size cfg e) (\<lambda>_.
     and_then (rank_coordinates (tensor_para_size cfg) (rank e)) (\<lambda>coords.
     and_then (split_layers cfg) (\<lambda>layers_per_group.
     and_then (form_communicators cfg e coords) (\<lambda>_.
     Go coords []))))))"

definition generate :: "config \<Rightarrow> env \<Rightarrow> cint \<times> cint \<Rightarrow> inputs \<Rightarrow> unit step" where
  "generate cfg e coords inp =
     and_then (create_engine cfg e coords) (\<lambda>_.
     and_then (make_tensors cfg inp) (\<lambda>ts.
     and_then (run_warmup ts) (\<lambda>_.
     and_then (collect_results cfg e inp) (\<lambda>_.
     run_measured cfg e inp ts))))"

subsection \<open>Properties of runs\<close>

text \<open>
  A run ends fatally when a checking macro stops it or when it exits with a status
  other than 0.
\<close>

definition fatal :: "outcome \<Rightarrow> bool" where
  "fatal h = (case h of Returned \<Rightarrow> False | Stopped (Exit c) \<Rightarrow> c \<noteq> 0
                | Stopped (Aborted m l) \<Rightarrow> True | Stopped Undefined \<Rightarrow> False)"

text \<open>The calls that build the process grid, its row and column groups and the NCCL groups.\<close>

definition forms_communicator :: "event \<Rightarrow> bool" where
  "forms_communicator ev =
     (case ev of MPI_Cart_create c d p r \<Rightarrow> True | MPI_Cart_sub c r c' \<Rightarrow> True
      | NcclGetUniqueId n \<Rightarrow> True | MPI_Bcast_uid n r c \<Rightarrow> True
      | NcclCommInitRank n k r \<Rightarrow> True | _ \<Rightarrow> False)"

text \<open>The calls of lines 334 to 362 that touch the result file or the host copy.\<close>

definition collects_results :: "event \<Rightarrow> bool" where
  "collects_results ev =
     (case ev of Ofstream_open f \<Rightarrow> True | New_hBuf n \<Rightarrow> True | CudaD2Hcpy b n \<Rightarrow> True
      | OutFile a \<Rightarrow> True | Delete_hBuf \<Rightarrow> True | _ \<Rightarrow> False)"

definition copies_or_writes :: "event \<Rightarrow> bool" where
  "copies_or_writes ev =
     (case ev of CudaD2Hcpy b n \<Rightarrow> True | OutFile a \<Rightarrow> True | _ \<Rightarrow> False)"

definition is_forward :: "event \<Rightarrow> bool" where
  "is_forward ev = (case ev of Forward p outs ins \<Rightarrow> True | _ \<Rightarrow> False)"

definition in_warmup_pass :: "event \<Rightarrow> bool" where
  "in_warmup_pass ev = (case ev of Forward p outs ins \<Rightarrow> p = warmup | _ \<Rightarrow> False)"

text \<open>The measured region: the two clock readings and the forward calls between them.\<close>

definition in_measured_pass :: "event \<Rightarrow> bool" where
  "in_measured_pass ev =
     (case ev of Forward p outs ins \<Rightarrow> p = measured | Gettimeofday v \<Rightarrow> True | _ \<Rightarrow> False)"

definition reads_clock :: "event \<Rightarrow> bool" where
  "reads_clock ev = (case ev of Gettimeofday v \<Rightarrow> True | _ \<Rightarrow> False)"

definition reports_latency :: "event \<Rightarrow> bool" where
  "reports_latency ev = (case ev of Printf f a \<Rightarrow> f = fmt_info | _ \<Rightarrow> False)"

definition reports_layers_per_group :: "event \<Rightarrow> bool" where
  "reports_layers_per_group ev =
     (case ev of Printf f a \<Rightarrow> f = fmt_layers_per_group | _ \<Rightarrow> False)"

definition allocates_input :: "event \<Rightarrow> bool" where
  "allocates_input ev =
     (case ev of DeviceMalloc b n \<Rightarrow> b = Input_ids \<or> b = Input_lengths
      | CudaH2Dcpy b xs n \<Rightarrow> True | _ \<Rightarrow> False)"

definition allocates_output :: "event \<Rightarrow> bool" where
  "allocates_output ev =
     (case ev of DeviceMalloc b n \<Rightarrow> b \<noteq> Input_ids \<and> b \<noteq> Input_lengths | _ \<Rightarrow> False)"

text \<open>A call that is none of the kinds above.\<close>

definition quiet :: "event \<Rightarrow> bool" where
  "quiet ev = (\<not> is_forward ev \<and> \<not> collects_results ev \<and> \<not> reads_clock ev
     \<and> \<not> reports_latency ev \<and> \<not> allocates_input ev \<and> \<not> allocates_output ev)"

definition passes_null_output :: "event \<Rightarrow> bool" where
  "passes_null_output ev =
     (case ev of Forward p outs ins \<Rightarrow> list_ex (\<lambda>t. data t = nullptr) outs | _ \<Rightarrow> False)"

text \<open>
  \<open>never_followed_by P Q tr\<close>: no call of kind \<open>P\<close> in \<open>tr\<close> has a call of kind \<open>Q\<close>
  after it, that is every \<open>Q\<close> call is made before every \<open>P\<close> call.
\<close>

fun never_followed_by :: "(event \<Rightarrow> bool) \<Rightarrow> (event \<Rightarrow> bool) \<Rightarrow> event list \<Rightarrow> bool" where
  "never_followed_by P Q [] = True"
| "never_followed_by P Q (ev # evs) = (\<not> (P ev \<and> list_ex Q evs) \<and> never_followed_by P Q evs)"

text \<open>The process grid of the data model: positive sizes whose product is the world size.\<close>

definition valid_grid :: "cint \<Rightarrow> cint \<Rightarrow> cint \<Rightarrow> bool" where
  "valid_grid t p w = (0 < sint t \<and> 0 < sint p \<and> sint t * sint p = sint w)"

definition is_rank :: "cint \<Rightarrow> cint \<Rightarrow> bool" where
  "is_rank w r = (0 \<le> sint r \<and> sint r < sint w)"

definition in_grid :: "cint \<Rightarrow> cint \<Rightarrow> cint \<times> cint \<Rightarrow> bool" where
  "in_grid t p c =
     (0 \<le> sint (fst c) \<and> sint (fst c) < sint t \<and> 0 \<le> sint (snd c) \<and> sint (snd c) < sint p)"

subsection \<open>Example runs\<close>

text \<open>
  A 2 by 2 grid with 16 heads and 4 layers, one request of beam width 1 that asks for 8
  tokens; the start-id file has no prompt.
\<close>

definition cfg0 :: config where
  "cfg0 = \<lparr>is_half = False, max_batch_size = 8, max_seq_len = 16, beam_width = 1, top_k = 1,
     tensor_para_size = 2, pipeline_para_size = 2, head_num = 16, size_per_head = 64,
     vocab_size = 50304, decoder_layers = 4, request_batch_size = 1, request_output_len = 8\<rparr>"

definition env_rank0 :: env where
  "env_rank0 = \<lparr>rank = 0, world_size = 4, device_count = 4, device = 0, prop_name = ''GPU'',
     rank_tensor_parallel = 0, rank_pipeline_parallel = 0, file_max_input_len = 0,
     file_start_lengths = [], file_start_ids = [], bcast_seed = 0, outFile_is_open = True,
     output_ids = (\<lambda>i. of_nat i), tv_start = (10, 0), tv_end = (11, 500),
     call_ok = (\<lambda>m l. True)\<rparr>"

definition env_rank2 :: env where
  "env_rank2 = env_rank0\<lparr>rank := 2, device := 2, rank_pipeline_parallel := 1\<rparr>"

definition env_no_file :: env where
  "env_no_file = env_rank0\<lparr>outFile_is_open := False\<rparr>"

definition env_prompt :: env where
  "env_prompt = env_rank2\<lparr>file_max_input_len := 4, file_start_lengths := [4],
     file_start_ids := [818, 262, 938, 3155]\<rparr>"

text \<open>The tensors of these runs.\<close>

definition outs0 :: "tensor list" where
  "outs0 =
     [Tensor MEMORY_GPU TYPE_INT32 [1, 1, 8] (Dev Output_ids),
      Tensor MEMORY_GPU TYPE_INT32 [8, 1, 1] (Dev Parent_ids),
      Tensor MEMORY_GPU TYPE_INT32 [1, 1] (Dev Sequence_lengths),
      Tensor MEMORY_GPU TYPE_FP32 [8, 1, 1] nullptr]"

definition ins0 :: "tensor list" where
  "ins0 =
     [Tensor MEMORY_GPU TYPE_INT32 [1, 0] nullptr,
      Tensor MEMORY_GPU TYPE_INT32 [1] nullptr,
      Tensor MEMORY_CPU TYPE_INT32 [1] (Host_total_output_len 8)]"

text \<open>Variants of the configuration that break one start-up check each.\<close>

definition cfg_small_grid :: config where
  "cfg_small_grid = cfg0\<lparr>pipeline_para_size := 1\<rparr>"

definition cfg_heads :: config where
  "cfg_heads = cfg0\<lparr>tensor_para_size := 3\<rparr>"

definition cfg_layers :: config where
  "cfg_layers = cfg0\<lparr>decoder_layers := 5\<rparr>"

definition cfg_long :: config where
  "cfg_long = cfg0\<lparr>request_output_len := 32\<rparr>"

section \<open>Proofs\<close>

subsection \<open>Sequencing\<close>

lemma and_then_Go:
  "and_then (Go x es) f =
     (case f x of Halt h es' \<Rightarrow> Halt h (es @ es') | Go y es' \<Rightarrow> Go y (es @ es'))"
  by (simp add: and_then_def)

lemma and_then_Halt: "and_then (Halt h es) f = Halt h es"
  by (simp add: and_then_def)

lemma and_then_Go_nil: "and_then (Go x []) f = f x"
  by (cases "f x") (simp_all add: and_then_def)

lemma trace_and_then:
  "trace (and_then m f) = (case m of Halt h es \<Rightarrow> es | Go x es \<Rightarrow> es @ trace (f x))"
  by (auto simp: and_then_def split: step.splits)

lemma ending_and_then:
  "ending (and_then m f) = (case m of Halt h es \<Rightarrow> Stopped h | Go x es \<Rightarrow> ending (f x))"
  by (auto simp: and_then_def split: step.splits)

lemma and_then_assoc: "and_then (and_then m f) g = and_then m (\<lambda>x. and_then (f x) g)"
proof (cases m)
  case (Go x es)
  show ?thesis
  proof (cases "f x")
    case (Go y es')
    then show ?thesis using \<open>m = Go x es\<close> by (cases "g y") (simp_all add: and_then_def)
  next
    case (Halt h es')
    then show ?thesis using \<open>m = Go x es\<close> by (simp add: and_then_def)
  qed
next
  case (Halt h es)
  then show ?thesis by (simp add: and_then_def)
qed

lemma in_trace_and_then:
  "ev \<in> set (trace (and_then m f)) \<Longrightarrow> ev \<in> set (trace m) \<or> (\<exists>x. ev \<in> set (trace (f x)))"
  by (cases m) (auto simp: trace_and_then)

lemma and_then_eq_Halt:
  "and_then m f = Halt h es \<Longrightarrow>
     m = Halt h es \<or> (\<exists>x es1 es2. m = Go x es1 \<and> f x = Halt h es2 \<and> es = es1 @ es2)"
  by (cases m) (auto simp: and_then_def split: step.splits)

lemma and_then_eq_Go:
  "and_then m f = Go y es \<Longrightarrow> \<exists>x es1 es2. m = Go x es1 \<and> f x = Go y es2 \<and> es = es1 @ es2"
  by (cases m) (auto simp: and_then_def split: step.splits)

lemmas prim_defs = emit_def defined_def checked_def ft_check_def

lemmas kind_defs = is_forward_def collects_results_def reads_clock_def allocates_input_def
  reports_latency_def in_measured_pass_def in_warmup_pass_def copies_or_writes_def
  forms_communicator_def allocates_output_def passes_null_output_def
  reports_layers_per_group_def quiet_def

lemmas fmt_defs = fmt_info_def fmt_world_size_def fmt_layers_per_group_def fmt_total_output_len_def fmt_cannot_write_def

lemmas arith_defs = size_mod_def size_div_def size_of_int_def int_of_size_def int_mod_def
  int_div_def int_mul_def int_add_def int_in_range_def signed_divide_int_def
  signed_modulo_int_def

lemmas example_defs = cfg0_def env_rank0_def env_rank2_def env_no_file_def env_prompt_def
  cfg_small_grid_def cfg_heads_def cfg_layers_def cfg_long_def

subsection \<open>Arithmetic\<close>

lemma sint_word_of_int_in_range:
  "int_in_range k \<Longrightarrow> sint (word_of_int k :: cint) = k"
  by (simp add: int_in_range_def sint_sbintrunc' signed_take_bit_int_eq_self)

lemma int_in_range_sint: "int_in_range (sint (a :: cint))"
  using sint_ge [of a] sint_lt [of a] by (simp add: int_in_range_def)

lemma int_mul_Some: "int_mul a b = Some n \<Longrightarrow> sint n = sint a * sint b"
  by (auto simp: int_mul_def int_in_range_def sint_word_mult signed_take_bit_int_eq_self split: if_splits)

lemma int_add_Some: "int_add a b = Some n \<Longrightarrow> sint n = sint a + sint b"
  by (auto simp: int_add_def int_in_range_def sint_word_ariths signed_take_bit_int_eq_self split: if_splits)

lemma int_mod_nonneg:
  assumes "0 \<le> sint r" "0 < sint t"
  shows "\<exists>a. int_mod r t = Some a \<and> sint a = sint r mod sint t"
proof -
  have t0: "t \<noteq> 0" using assms(2) by auto
  have d: "sint r sdiv sint t = sint r div sint t" and m: "sint r smod sint t = sint r mod sint t"
    using assms by (simp_all add: signed_divide_int_def signed_modulo_int_def sgn_if)
  have "0 \<le> sint r div sint t" using assms by (simp add: pos_imp_zdiv_nonneg_iff)
  moreover have "sint r div sint t \<le> sint r" using assms
    using zdiv_mono2 [of "sint r" 1 "sint t"] by simp
  ultimately have rd: "int_in_range (sint r div sint t)"
    using int_in_range_sint [of r] by (simp add: int_in_range_def)
  have "0 \<le> sint r mod sint t" "sint r mod sint t < sint t" using assms by simp_all
  then have rm: "int_in_range (sint r mod sint t)"
    using int_in_range_sint [of t] by (simp add: int_in_range_def)
  show ?thesis using t0 rd rm by (simp add: int_mod_def d m sint_word_of_int_in_range)
qed

lemma int_div_nonneg:
  assumes "0 \<le> sint r" "0 < sint t"
  shows "\<exists>a. int_div r t = Some a \<and> sint a = sint r div sint t"
proof -
  have t0: "t \<noteq> 0" using assms(2) by auto
  have d: "sint r sdiv sint t = sint r div sint t"
    using assms by (simp_all add: signed_divide_int_def sgn_if)
  have "0 \<le> sint r div sint t" using assms by (simp add: pos_imp_zdiv_nonneg_iff)
  moreover have "sint r div sint t \<le> sint r" using assms
    using zdiv_mono2 [of "sint r" 1 "sint t"] by simp
  ultimately have rd: "int_in_range (sint r div sint t)"
    using int_in_range_sint [of r] by (simp add: int_in_range_def)
  show ?thesis using t0 rd by (simp add: int_div_def d sint_word_of_int_in_range)
qed

lemma rank_coordinates_nonneg:
  assumes "0 \<le> sint r" "0 < sint t"
  shows "\<exists>a b. rank_coordinates t r = Go (a, b) [] \<and> sint a = sint r mod sint t
           \<and> sint b = sint r div sint t"
proof -
  obtain a where a: "int_mod r t = Some a" "sint a = sint r mod sint t"
    using int_mod_nonneg [OF assms] by blast
  obtain b where b: "int_div r t = Some b" "sint b = sint r div sint t"
    using int_div_nonneg [OF assms] by blast
  show ?thesis using a b by (simp add: rank_coordinates_def and_then_def defined_def)
qed


lemma sint_size_of_int: "sint (size_of_int t) = sint t"
proof -
  have "- (2 ^ 63) \<le> sint t" using sint_ge [of t] by simp
  moreover have "sint t < 2 ^ 63" using sint_lt [of t] by simp
  ultimately show ?thesis
    by (simp add: size_of_int_def signed_scast_eq signed_take_bit_int_eq_self)
qed

lemma size_of_int_eq_0: "(size_of_int t = 0) = (t = 0)"
proof
  assume "size_of_int t = 0"
  then have "sint (size_of_int t) = 0" by simp
  then have "sint t = sint (0 :: cint)" by (simp add: sint_size_of_int)
  then show "t = 0" by (rule signed_word_eqI)
next
  assume "t = 0" then show "size_of_int t = 0" by (simp add: size_of_int_def)
qed

lemma size_of_int_pos: "0 \<le> sint t \<Longrightarrow> unat (size_of_int t) = nat (sint t)"
proof -
  assume nn: "0 \<le> sint t"
  have "sint t < 2 ^ 64" using sint_lt [of t] by simp
  then have "take_bit 64 (sint t) = sint t" using nn by (simp add: take_bit_int_eq_self)
  then have "uint (size_of_int t) = sint t"
    using uint_sint [of "size_of_int t"] by (simp add: sint_size_of_int)
  then show ?thesis by (simp only: unat_eq_nat_uint)
qed

lemma size_mod_eq_0:
  "b \<noteq> 0 \<Longrightarrow> size_mod a b = Some r \<Longrightarrow> (r = 0) = (unat b dvd unat a)"
  by (auto simp: size_mod_def unat_mod mod_eq_0_iff_dvd unat_eq_0 [symmetric]
      simp del: unat_eq_0 split: if_splits)

text \<open>Truncation to 32 bits commutes with multiplication and undoes the sign extension.\<close>

lemma word_of_int_take_bit_64: "(word_of_int (take_bit 64 k) :: cint) = word_of_int k"
  by (rule wi_bintr) simp

lemma ucast_mult_64_32: "(ucast (a * b :: csize) :: cint) = ucast a * ucast b"
proof -
  have "(ucast (a * b) :: cint) = word_of_int (uint (a * b))" by (rule ucast_eq)
  also have "uint (a * b) = take_bit 64 (uint a * uint b)"
    using uint_word_arith_bintrs(3) [of a b] by simp
  also have "(word_of_int (take_bit 64 (uint a * uint b)) :: cint) = word_of_int (uint a * uint b)"
    by (rule word_of_int_take_bit_64)
  also have "\<dots> = word_of_int (uint a) * word_of_int (uint b)"
    by (rule wi_hom_mult [symmetric])
  also have "\<dots> = ucast a * ucast b" by (simp only: ucast_eq)
  finally show ?thesis .
qed

lemma ucast_scast_32_64: "ucast (scast (p :: cint) :: csize) = p"
proof -
  have "ucast (scast p :: csize) = (word_of_int (uint (scast p :: csize)) :: cint)"
    by (rule ucast_eq)
  also have "uint (scast p :: csize) = take_bit 64 (sint p)"
    using uint_word_of_int_eq [of "sint p", where ?'a = 64] by (simp only: scast_eq) simp
  also have "(word_of_int (take_bit 64 (sint p)) :: cint) = word_of_int (sint p)"
    by (rule word_of_int_take_bit_64)
  also have "\<dots> = p" by simp
  finally show ?thesis .
qed

lemma layers_product:
  assumes "d mod size_of_int p = 0"
  shows "int_of_size (d div size_of_int p) * p = int_of_size d"
proof -
  have "d div size_of_int p * size_of_int p = d"
    using div_mult_mod_eq [of d "size_of_int p"] assms by simp
  then have "int_of_size (d div size_of_int p * size_of_int p) = int_of_size d" by simp
  moreover have "int_of_size (d div size_of_int p * size_of_int p)
      = int_of_size (d div size_of_int p) * int_of_size (size_of_int p)"
    unfolding int_of_size_def by (rule ucast_mult_64_32)
  moreover have "int_of_size (size_of_int p) = p"
    unfolding int_of_size_def size_of_int_def by (rule ucast_scast_32_64)
  ultimately show ?thesis by simp
qed

lemma sint_int_of_size_small:
  assumes "uint m < 2 ^ 31"
  shows "sint (int_of_size m) = uint m"
proof -
  have "uint (int_of_size m) = take_bit 32 (uint m)"
    by (simp add: int_of_size_def unsigned_ucast_eq)
  also have "\<dots> = uint m" using assms by (simp add: take_bit_int_eq_self)
  finally have u: "uint (int_of_size m) = uint m" .
  have "sint (int_of_size m) = signed_take_bit 31 (uint (int_of_size m))"
    using sint_uint [of "int_of_size m"] by simp
  also have "\<dots> = uint m"
  proof -
    have "(- (2 ^ 31) :: int) \<le> 0" by simp
    also have "0 \<le> uint m" by simp
    finally show ?thesis
      unfolding u using assms signed_take_bit_int_eq_self [of 31 "uint m"] by simp
  qed
  finally show ?thesis .
qed


subsection \<open>The parts of the function\<close>

lemma forward_loop_once: "forward_loop p ts = [Forward p (output_tensors ts) (input_tensors ts)]"
  by (simp add: forward_loop_def ite_def)

lemma check_model_shape_trace: "trace (check_model_shape cfg) = []"
  by (auto simp: check_model_shape_def trace_and_then prim_defs split: option.splits step.splits)

lemma check_model_shape_stop:
  "check_model_shape cfg = Halt h es \<Longrightarrow> h = Undefined \<or> h = Aborted FT_CHECK 101 \<or> h = Aborted FT_CHECK 102"
  by (auto simp: check_model_shape_def and_then_def prim_defs split: option.splits step.splits if_splits)

lemma query_devices_trace:
  "ev \<in> set (trace (query_devices e)) \<Longrightarrow> quiet ev \<and> \<not> forms_communicator ev"
  by (auto simp: query_devices_def trace_and_then prim_defs kind_defs fmt_defs split: option.splits step.splits if_splits)

lemma query_devices_stop:
  "query_devices e = Halt h es \<Longrightarrow> h = Undefined \<or> (\<exists>m l. h = Aborted m l)"
  by (auto simp: query_devices_def and_then_def prim_defs split: option.splits step.splits if_splits)

lemma check_world_size_trace:
  "ev \<in> set (trace (check_world_size cfg e)) \<Longrightarrow> ev = Printf fmt_world_size []"
  by (auto simp: check_world_size_def trace_and_then prim_defs split: option.splits step.splits if_splits)

lemma check_world_size_stop:
  "check_world_size cfg e = Halt h es \<Longrightarrow> h = Undefined \<or> h = Exit (- 1)"
  by (auto simp: check_world_size_def and_then_def prim_defs split: option.splits step.splits if_splits)

lemma rank_coordinates_trace: "trace (rank_coordinates t r) = []"
  by (auto simp: rank_coordinates_def trace_and_then prim_defs split: option.splits step.splits)

lemma rank_coordinates_stop: "rank_coordinates t r = Halt h es \<Longrightarrow> h = Undefined"
  by (auto simp: rank_coordinates_def and_then_def prim_defs split: option.splits step.splits if_splits)

lemma split_layers_trace:
  "ev \<in> set (trace (split_layers cfg)) \<Longrightarrow> (\<exists>a. ev = Printf fmt_layers_per_group a)"
  by (auto simp: split_layers_def trace_and_then prim_defs Let_def split: option.splits step.splits if_splits)

lemma split_layers_stop:
  "split_layers cfg = Halt h es \<Longrightarrow> h = Undefined \<or> h = Exit (- 1)"
  by (auto simp: split_layers_def and_then_def prim_defs Let_def split: option.splits step.splits if_splits)

lemma form_communicators_trace:
  "ev \<in> set (trace (form_communicators cfg e c)) \<Longrightarrow> quiet ev"
  by (auto simp: form_communicators_def trace_and_then prim_defs kind_defs split: option.splits step.splits if_splits)

lemma form_communicators_stop:
  "form_communicators cfg e c = Halt h es \<Longrightarrow> (\<exists>m l. h = Aborted m l)"
  by (auto simp: form_communicators_def and_then_def prim_defs split: option.splits step.splits if_splits)


lemma run_in_parts:
  "multi_gpu_gpt_example cfg e =
     and_then (startup cfg e) (\<lambda>coords.
     and_then (read_request cfg e) (\<lambda>inp. generate cfg e coords inp))"
  by (simp add: multi_gpu_gpt_example_def startup_def generate_def and_then_assoc and_then_Go_nil)

lemma startup_trace:
  assumes "ev \<in> set (trace (startup cfg e))"
  shows "quiet ev"
proof -
  consider "ev \<in> set (trace (check_model_shape cfg))" | "ev \<in> set (trace (query_devices e))"
    | "ev \<in> set (trace (check_world_size cfg e))"
    | "\<exists>r. ev \<in> set (trace (rank_coordinates (tensor_para_size cfg) r))"
    | "ev \<in> set (trace (split_layers cfg))"
    | "\<exists>c. ev \<in> set (trace (form_communicators cfg e c))"
    using assms unfolding startup_def by (auto dest!: in_trace_and_then; blast)
  then show ?thesis
  proof cases
    case 1 then show ?thesis by (simp add: check_model_shape_trace)
  next
    case 2 then show ?thesis using query_devices_trace by blast
  next
    case 3 then show ?thesis using check_world_size_trace [of ev cfg e]
      by (auto simp: kind_defs fmt_defs)
  next
    case 4 then show ?thesis by (simp add: rank_coordinates_trace)
  next
    case 5 then show ?thesis using split_layers_trace [of ev cfg]
      by (auto simp: kind_defs fmt_defs)
  next
    case 6 then show ?thesis using form_communicators_trace by blast
  qed
qed

lemma startup_stop:
  assumes "startup cfg e = Halt h es"
  shows "h = Undefined \<or> h = Exit (- 1) \<or> (\<exists>m l. h = Aborted m l)"
proof -
  consider "\<exists>es. check_model_shape cfg = Halt h es" | "\<exists>es. query_devices e = Halt h es"
    | "\<exists>es. check_world_size cfg e = Halt h es"
    | "\<exists>r es. rank_coordinates (tensor_para_size cfg) r = Halt h es"
    | "\<exists>es. split_layers cfg = Halt h es"
    | "\<exists>c es. form_communicators cfg e c = Halt h es"
    using assms unfolding startup_def by (auto dest!: and_then_eq_Halt; blast)
  then show ?thesis
  proof cases
    case 1 then show ?thesis using check_model_shape_stop by blast
  next
    case 2 then show ?thesis using query_devices_stop by blast
  next
    case 3 then show ?thesis using check_world_size_stop by blast
  next
    case 4 then show ?thesis using rank_coordinates_stop by blast
  next
    case 5 then show ?thesis using split_layers_stop by blast
  next
    case 6 then show ?thesis using form_communicators_stop by blast
  qed
qed

lemma run_cases [case_names startup_stops request_stops generates]:
  obtains h es where "startup cfg e = Halt h es" "multi_gpu_gpt_example cfg e = Halt h es"
  | c es h es' where "startup cfg e = Go c es" "read_request cfg e = Halt h es'"
      "multi_gpu_gpt_example cfg e = Halt h (es @ es')"
  | c es inp es' where "startup cfg e = Go c es" "read_request cfg e = Go inp es'"
      "trace (multi_gpu_gpt_example cfg e) = es @ es' @ trace (generate cfg e c inp)"
      "ending (multi_gpu_gpt_example cfg e) = ending (generate cfg e c inp)"
proof (cases "startup cfg e")
  case (Halt h es)
  then show ?thesis using that(1) by (simp add: run_in_parts and_then_Halt)
next
  case S: (Go c es)
  show ?thesis
  proof (cases "read_request cfg e")
    case (Halt h es')
    then show ?thesis using S that(2) by (simp add: run_in_parts and_then_Halt and_then_Go)
  next
    case (Go inp es')
    then show ?thesis using S that(3) [of c es inp es']
      by (simp add: run_in_parts trace_and_then ending_and_then)
  qed
qed

lemma check_model_shape_cases:
  "check_model_shape cfg = Go () [] \<or> check_model_shape cfg = Halt Undefined []
   \<or> check_model_shape cfg = Halt (Aborted FT_CHECK 101) []
   \<or> check_model_shape cfg = Halt (Aborted FT_CHECK 102) []"
  by (auto simp: check_model_shape_def and_then_def prim_defs split: option.splits)

lemma query_devices_quiet:
  "\<forall>ev\<in>set (trace (query_devices e)). \<not> forms_communicator ev"
  by (auto simp: query_devices_def trace_and_then prim_defs forms_communicator_def split: option.splits step.splits if_splits)

lemma query_devices_ending:
  "ending (query_devices e) = Returned \<or> ending (query_devices e) = Stopped Undefined
   \<or> (\<exists>m l. ending (query_devices e) = Stopped (Aborted m l))"
  by (auto simp: query_devices_def ending_and_then prim_defs split: option.splits step.splits if_splits)

lemma query_devices_ok:
  "\<forall>m l. call_ok e m l \<Longrightarrow> ending (query_devices e) \<noteq> Stopped Undefined \<Longrightarrow> ending (query_devices e) = Returned"
  by (auto simp: query_devices_def ending_and_then prim_defs split: option.splits step.splits if_splits)

lemma check_world_size_mismatch:
  assumes "sint (tensor_para_size cfg) * sint (pipeline_para_size cfg) \<noteq> sint (world_size e)"
  shows "check_world_size cfg e = Halt Undefined []
       \<or> check_world_size cfg e = Halt (Exit (- 1)) [Printf fmt_world_size []]"
  using assms by (auto simp: check_world_size_def and_then_def prim_defs dest!: int_mul_Some split: option.splits)

lemma read_request_Go:
  assumes "read_request cfg e = Go inp es"
  shows "max_input_len inp = file_max_input_len e"
    and "int_add (file_max_input_len e) (request_output_len cfg) = Some (total_output_len inp)"
    and "sint (total_output_len inp) \<le> sint (int_of_size (max_seq_len cfg))"
    and "d_input_ids inp = (if file_max_input_len e = 0 then nullptr else Dev Input_ids)"
    and "d_input_lengths inp = (if file_max_input_len e = 0 then nullptr else Dev Input_lengths)"
    and "file_max_input_len e \<noteq> 0 \<Longrightarrow>
           es = [Read_start_ids (request_batch_size cfg) end_id (beam_width cfg)
                   ''../examples/cpp/multi_gpu_gpt/start_ids.csv'',
                 DeviceMalloc Input_ids
                   (request_batch_size cfg * beam_width cfg * size_of_int (file_max_input_len e)),
                 DeviceMalloc Input_lengths (request_batch_size cfg * beam_width cfg),
                 CudaH2Dcpy Input_ids (file_start_ids e)
                   (request_batch_size cfg * beam_width cfg * size_of_int (file_max_input_len e)),
                 CudaH2Dcpy Input_lengths (file_start_lengths e)
                   (request_batch_size cfg * beam_width cfg)]"
  using assms
  by (auto simp: read_request_def and_then_def prim_defs Let_def split: option.splits if_splits)

lemma read_request_trace:
  "ev \<in> set (trace (read_request cfg e)) \<Longrightarrow>
     \<not> is_forward ev \<and> \<not> collects_results ev \<and> \<not> reads_clock ev \<and> \<not> reports_latency ev
     \<and> \<not> allocates_output ev \<and> (file_max_input_len e = 0 \<longrightarrow> \<not> allocates_input ev)"
  by (auto simp: read_request_def and_then_def prim_defs Let_def kind_defs fmt_defs
      split: option.splits if_splits)

lemma read_request_stop:
  "read_request cfg e = Halt h es \<Longrightarrow> h = Undefined \<or> h = Exit (- 1)"
  by (auto simp: read_request_def and_then_def prim_defs Let_def split: option.splits if_splits)

lemma create_engine_trace:
  "ev \<in> set (trace (create_engine cfg e c)) \<Longrightarrow> quiet ev"
  by (auto simp: create_engine_def and_then_def prim_defs Let_def kind_defs split: if_splits)

lemma create_engine_stop:
  "create_engine cfg e c = Halt h es \<Longrightarrow> h = Aborted MPICHECK 250"
  by (auto simp: create_engine_def and_then_def prim_defs Let_def split: if_splits)

lemma make_tensors_eq:
  "make_tensors cfg inp =
     Go (build_tensors cfg inp)
       [DeviceMalloc Output_ids
          (request_batch_size cfg * beam_width cfg * size_of_int (total_output_len inp)),
        DeviceMalloc Parent_ids
          (request_batch_size cfg * beam_width cfg * size_of_int (total_output_len inp)),
        DeviceMalloc Sequence_lengths (request_batch_size cfg * beam_width cfg)]"
  by (simp add: make_tensors_def Let_def)

lemma run_warmup_eq:
  "run_warmup ts =
     Go () [Print_mem_usage, CudaDeviceSynchronize, MPI_Barrier MPI_COMM_WORLD,
            CudaProfilerStart, Nvtx_setScope ''warmup_time'', PUSH_RANGE ''warmup time'',
            Forward warmup (output_tensors ts) (input_tensors ts),
            CudaDeviceSynchronize, MPI_Barrier MPI_COMM_WORLD, POP_RANGE, Nvtx_resetScope]"
  by (simp add: run_warmup_def emit_def forward_loop_once)

lemma run_measured_eq:
  "run_measured cfg e inp ts =
     Go () [MPI_Barrier MPI_COMM_WORLD, CudaDeviceSynchronize, Gettimeofday tv_start_var,
            Nvtx_setScope ''total_time'', PUSH_RANGE ''total time'',
            Forward measured (output_tensors ts) (input_tensors ts),
            CudaDeviceSynchronize, MPI_Barrier MPI_COMM_WORLD, POP_RANGE, Nvtx_resetScope,
            Gettimeofday tv_end_var, CudaProfilerStop,
            Printf fmt_info
              [L (request_batch_size cfg), L (beam_width cfg), L (head_num cfg),
               L (size_per_head cfg), I (total_output_len inp), L (decoder_layers cfg),
               L (vocab_size cfg), Elapsed_ms (tv_start e) (tv_end e) ite],
            NcclCommDestroy tensor_para, NcclCommDestroy pipeline_para,
            Delete_cublas_algo_map, Delete_cublas_wrapper_mutex]"
  by (simp add: run_measured_def emit_def forward_loop_once)

lemma write_element_trace:
  "ev \<in> set (write_element e t i) \<Longrightarrow>
     \<not> is_forward ev \<and> \<not> reads_clock ev \<and> \<not> reports_latency ev \<and> \<not> allocates_input ev
     \<and> \<not> allocates_output ev"
  by (auto simp: write_element_def kind_defs fmt_defs split: if_splits)

lemma collect_results_trace:
  "ev \<in> set (trace (collect_results cfg e inp)) \<Longrightarrow>
     \<not> is_forward ev \<and> \<not> reads_clock ev \<and> \<not> reports_latency ev \<and> \<not> allocates_input ev
     \<and> \<not> allocates_output ev"
  by (auto simp: collect_results_def and_then_def prim_defs Let_def kind_defs fmt_defs
      dest!: write_element_trace split: option.splits if_splits)

lemma collect_results_stop: "collect_results cfg e inp = Halt h es \<Longrightarrow> h = Undefined"
  by (auto simp: collect_results_def and_then_def prim_defs Let_def split: option.splits if_splits)

lemma collect_results_other_rank: "rank e \<noteq> 0 \<Longrightarrow> collect_results cfg e inp = Go () []"
  by (simp add: collect_results_def)

lemma collect_results_no_file:
  "rank e = 0 \<Longrightarrow> \<not> outFile_is_open e \<Longrightarrow>
     collect_results cfg e inp = Go () [Ofstream_open ''out'', Printf fmt_cannot_write [S ''out'']]"
  by (simp add: collect_results_def and_then_def emit_def)

lemma generate_cases [case_names engine_stops collect_stops completes]:
  obtains h es where "create_engine cfg e c = Halt h es" "generate cfg e c inp = Halt h es"
  | es1 h es3 where "create_engine cfg e c = Go () es1"
      "collect_results cfg e inp = Halt h es3"
      "generate cfg e c inp =
         Halt h (es1 @ trace (make_tensors cfg inp) @ trace (run_warmup (build_tensors cfg inp)) @ es3)"
  | es1 es3 where "create_engine cfg e c = Go () es1"
      "collect_results cfg e inp = Go () es3"
      "generate cfg e c inp =
         Go () (es1 @ trace (make_tensors cfg inp) @ trace (run_warmup (build_tensors cfg inp)) @ es3
                @ trace (run_measured cfg e inp (build_tensors cfg inp)))"
proof (cases "create_engine cfg e c")
  case (Halt h es)
  then show ?thesis using that(1) by (simp add: generate_def and_then_Halt)
next
  case E: (Go u es1)
  show ?thesis
  proof (cases "collect_results cfg e inp")
    case (Halt h es3)
    then show ?thesis using E that(2) [of es1 h es3]
      by (simp add: generate_def and_then_def make_tensors_eq run_warmup_eq)
  next
    case (Go u' es3)
    then show ?thesis using E that(3) [of es1 es3]
      by (simp add: generate_def and_then_def make_tensors_eq run_warmup_eq run_measured_eq)
  qed
qed

subsection \<open>Kinds of calls and their order\<close>

lemma never_followed_by_split:
  "(\<forall>x\<in>set xs. \<not> P x) \<Longrightarrow> (\<forall>y\<in>set ys. \<not> Q y) \<Longrightarrow> never_followed_by P Q (xs @ ys)"
proof (induction xs)
  case Nil
  then show ?case by (induction ys) (auto simp: list_ex_iff)
next
  case (Cons x xs)
  then show ?case by simp
qed

lemma in_measured_pass_kinds: "in_measured_pass ev \<Longrightarrow> is_forward ev \<or> reads_clock ev"
  by (cases ev) (simp_all add: kind_defs)

lemma in_warmup_pass_kinds: "in_warmup_pass ev \<Longrightarrow> is_forward ev"
  by (cases ev) (simp_all add: kind_defs)

lemma copies_or_writes_kinds: "copies_or_writes ev \<Longrightarrow> collects_results ev"
  by (cases ev) (simp_all add: kind_defs)

lemma passes_null_output_kinds: "passes_null_output ev \<Longrightarrow> is_forward ev"
  by (cases ev) (simp_all add: kind_defs)

lemma quiet_kinds:
  "quiet ev \<Longrightarrow> \<not> is_forward ev \<and> \<not> collects_results ev \<and> \<not> reads_clock ev
     \<and> \<not> reports_latency ev \<and> \<not> allocates_input ev \<and> \<not> allocates_output ev
     \<and> \<not> in_measured_pass ev \<and> \<not> in_warmup_pass ev \<and> \<not> copies_or_writes ev
     \<and> \<not> passes_null_output ev"
  using in_measured_pass_kinds in_warmup_pass_kinds copies_or_writes_kinds passes_null_output_kinds
  by (auto simp: quiet_def)

lemma make_tensors_trace:
  "ev \<in> set (trace (make_tensors cfg inp)) \<Longrightarrow>
     \<not> is_forward ev \<and> \<not> collects_results ev \<and> \<not> reads_clock ev \<and> \<not> reports_latency ev
     \<and> \<not> allocates_input ev"
  by (auto simp: make_tensors_eq kind_defs)

lemma run_warmup_trace:
  "ev \<in> set (trace (run_warmup ts)) \<Longrightarrow>
     \<not> collects_results ev \<and> \<not> reads_clock ev \<and> \<not> reports_latency ev
     \<and> \<not> allocates_input ev \<and> \<not> allocates_output ev \<and> \<not> in_measured_pass ev"
  by (auto simp: run_warmup_eq kind_defs)

lemma run_measured_trace:
  "ev \<in> set (trace (run_measured cfg e inp ts)) \<Longrightarrow>
     \<not> collects_results ev \<and> \<not> allocates_input ev \<and> \<not> allocates_output ev
     \<and> \<not> in_warmup_pass ev"
  by (auto simp: run_measured_eq kind_defs fmt_defs)

lemma collect_results_trace':
  "ev \<in> set (trace (collect_results cfg e inp)) \<Longrightarrow> \<not> in_measured_pass ev \<and> \<not> in_warmup_pass ev"
  using collect_results_trace in_measured_pass_kinds in_warmup_pass_kinds by blast



lemma startup_before_collection:
  "\<forall>ev\<in>set (trace (startup cfg e)). \<not> collects_results ev \<and> \<not> in_measured_pass ev"
  using startup_trace quiet_kinds by blast

lemma read_request_before_collection:
  "\<forall>ev\<in>set (trace (read_request cfg e)). \<not> collects_results ev \<and> \<not> in_measured_pass ev"
  using read_request_trace in_measured_pass_kinds by blast

lemma create_engine_before_collection:
  "\<forall>ev\<in>set (trace (create_engine cfg e c)). \<not> collects_results ev \<and> \<not> in_measured_pass ev"
  using create_engine_trace quiet_kinds by blast

lemma make_tensors_before_collection:
  "\<forall>ev\<in>set (trace (make_tensors cfg inp)). \<not> collects_results ev \<and> \<not> in_measured_pass ev"
  using make_tensors_trace in_measured_pass_kinds by blast

lemma run_warmup_before_collection:
  "\<forall>ev\<in>set (trace (run_warmup ts)). \<not> collects_results ev \<and> \<not> in_measured_pass ev"
  using run_warmup_trace by blast

lemma collect_results_rank0:
  "rank e = 0 \<Longrightarrow> Ofstream_open ''out'' \<in> set (trace (collect_results cfg e inp))"
  by (simp add: collect_results_def trace_and_then emit_def)

text \<open>
  The calls of every run split into those before the result collection, the result
  collection, and the measured pass with the report. The measured pass is there exactly
  when the function returns.
\<close>

lemma run_phases:
  "\<exists>pre col meas. trace (multi_gpu_gpt_example cfg e) = pre @ col @ meas
     \<and> (\<forall>ev\<in>set pre. \<not> collects_results ev \<and> \<not> in_measured_pass ev)
     \<and> (col = [] \<and> meas = [] \<and> ending (multi_gpu_gpt_example cfg e) \<noteq> Returned
        \<or> (\<exists>inp h. collect_results cfg e inp = Halt h col \<and> meas = []
              \<and> ending (multi_gpu_gpt_example cfg e) = Stopped h)
        \<or> (\<exists>inp. collect_results cfg e inp = Go () col
              \<and> meas = trace (run_measured cfg e inp (build_tensors cfg inp))
              \<and> ending (multi_gpu_gpt_example cfg e) = Returned))"
proof (cases rule: run_cases [of cfg e])
  case (startup_stops h es)
  then have "trace (multi_gpu_gpt_example cfg e) = es @ [] @ []" by simp
  moreover have "\<forall>ev\<in>set es. \<not> collects_results ev \<and> \<not> in_measured_pass ev"
    using startup_before_collection [of cfg e] startup_stops(1) by simp
  moreover have "ending (multi_gpu_gpt_example cfg e) \<noteq> Returned"
    using startup_stops(2) by simp
  ultimately show ?thesis by (intro exI [of _ es] exI [of _ "[]"]) simp
next
  case (request_stops c es h es')
  then have "trace (multi_gpu_gpt_example cfg e) = (es @ es') @ [] @ []" by simp
  moreover have "\<forall>ev\<in>set (es @ es'). \<not> collects_results ev \<and> \<not> in_measured_pass ev"
    using startup_before_collection [of cfg e] read_request_before_collection [of cfg e]
      request_stops(1,2) by auto
  moreover have "ending (multi_gpu_gpt_example cfg e) \<noteq> Returned"
    using request_stops(3) by simp
  ultimately show ?thesis by (intro exI [of _ "es @ es'"] exI [of _ "[]"]) simp
next
  case (generates c es inp es')
  have pre: "\<forall>ev\<in>set (es @ es'). \<not> collects_results ev \<and> \<not> in_measured_pass ev"
    using startup_before_collection [of cfg e] read_request_before_collection [of cfg e]
      generates(1,2) by auto
  show ?thesis
  proof (cases rule: generate_cases [of cfg e c inp])
    case (engine_stops h es1)
    then have "trace (multi_gpu_gpt_example cfg e) = (es @ es' @ es1) @ [] @ []"
      using generates(3) by simp
    moreover have "\<forall>ev\<in>set (es @ es' @ es1). \<not> collects_results ev \<and> \<not> in_measured_pass ev"
      using pre create_engine_before_collection [of cfg e c] engine_stops(1) by auto
    moreover have "ending (multi_gpu_gpt_example cfg e) \<noteq> Returned"
      using generates(4) engine_stops(2) by simp
    ultimately show ?thesis by (intro exI [of _ "es @ es' @ es1"] exI [of _ "[]"]) simp
  next
    case (collect_stops es1 h es3)
    let ?pre = "es @ es' @ es1 @ trace (make_tensors cfg inp) @ trace (run_warmup (build_tensors cfg inp))"
    have "trace (multi_gpu_gpt_example cfg e) = ?pre @ es3 @ []"
      using generates(3) collect_stops(3) by simp
    moreover have "\<forall>ev\<in>set ?pre. \<not> collects_results ev \<and> \<not> in_measured_pass ev"
      using pre create_engine_before_collection [of cfg e c] collect_stops(1)
        make_tensors_before_collection [of cfg inp]
        run_warmup_before_collection [of "build_tensors cfg inp"] by auto
    moreover have "ending (multi_gpu_gpt_example cfg e) = Stopped h"
      using generates(4) collect_stops(3) by simp
    ultimately show ?thesis
      using collect_stops(2) by (intro exI [of _ ?pre] exI [of _ es3] exI [of _ "[]"]) auto
  next
    case (completes es1 es3)
    let ?pre = "es @ es' @ es1 @ trace (make_tensors cfg inp) @ trace (run_warmup (build_tensors cfg inp))"
    let ?meas = "trace (run_measured cfg e inp (build_tensors cfg inp))"
    have "trace (multi_gpu_gpt_example cfg e) = ?pre @ es3 @ ?meas"
      using generates(3) completes(3) by simp
    moreover have "\<forall>ev\<in>set ?pre. \<not> collects_results ev \<and> \<not> in_measured_pass ev"
      using pre create_engine_before_collection [of cfg e c] completes(1)
        make_tensors_before_collection [of cfg inp]
        run_warmup_before_collection [of "build_tensors cfg inp"] by auto
    moreover have "ending (multi_gpu_gpt_example cfg e) = Returned"
      using generates(4) completes(3) by simp
    ultimately show ?thesis
      using completes(2) by (intro exI [of _ ?pre] exI [of _ es3] exI [of _ ?meas]) auto
  qed
qed

text \<open>The same, with only what the order of the calls needs.\<close>

lemma run_phases_kinds:
  "\<exists>pre col meas. trace (multi_gpu_gpt_example cfg e) = pre @ col @ meas
     \<and> (\<forall>ev\<in>set pre. \<not> collects_results ev \<and> \<not> in_measured_pass ev)
     \<and> (\<forall>ev\<in>set col. \<not> in_measured_pass ev \<and> \<not> in_warmup_pass ev)
     \<and> (\<forall>ev\<in>set meas. \<not> collects_results ev \<and> \<not> in_warmup_pass ev)"
proof -
  obtain pre col meas where t: "trace (multi_gpu_gpt_example cfg e) = pre @ col @ meas"
    and pre: "\<forall>ev\<in>set pre. \<not> collects_results ev \<and> \<not> in_measured_pass ev"
    and col: "col = [] \<or> (\<exists>inp. col = trace (collect_results cfg e inp))"
    and meas: "meas = [] \<or> (\<exists>inp ts. meas = trace (run_measured cfg e inp ts))"
    using run_phases [of cfg e] by (metis trace.simps)
  have "\<forall>ev\<in>set col. \<not> in_measured_pass ev \<and> \<not> in_warmup_pass ev"
    using col collect_results_trace' by auto
  moreover have "\<forall>ev\<in>set meas. \<not> collects_results ev \<and> \<not> in_warmup_pass ev"
    using meas run_measured_trace by auto
  ultimately show ?thesis using t pre by blast
qed

text \<open>A run that returns has gone through every part.\<close>

lemma run_Returned:
  assumes "ending (multi_gpu_gpt_example cfg e) = Returned"
  obtains c es inp es' es1 es3 where "startup cfg e = Go c es" "read_request cfg e = Go inp es'"
    "create_engine cfg e c = Go () es1" "collect_results cfg e inp = Go () es3"
    "trace (multi_gpu_gpt_example cfg e) =
       es @ es' @ es1 @ trace (make_tensors cfg inp) @ trace (run_warmup (build_tensors cfg inp))
       @ es3 @ trace (run_measured cfg e inp (build_tensors cfg inp))"
proof (cases rule: run_cases [of cfg e])
  case (startup_stops h es)
  then show ?thesis using assms by simp
next
  case (request_stops c es h es')
  then show ?thesis using assms by simp
next
  case (generates c es inp es')
  show ?thesis
  proof (cases rule: generate_cases [of cfg e c inp])
    case (engine_stops h es1)
    then show ?thesis using assms generates(4) by simp
  next
    case (collect_stops es1 h es3)
    then show ?thesis using assms generates(4) by simp
  next
    case (completes es1 es3)
    then show ?thesis using that [of c es inp es' es1 es3] generates by simp
  qed
qed

lemma forward_in_run:
  assumes "Forward p outs ins \<in> set (trace (multi_gpu_gpt_example cfg e))"
  shows "\<exists>inp es'. read_request cfg e = Go inp es'
           \<and> set es' \<subseteq> set (trace (multi_gpu_gpt_example cfg e))
           \<and> outs = output_tensors (build_tensors cfg inp)
           \<and> ins = input_tensors (build_tensors cfg inp)"
proof -
  have f: "is_forward (Forward p outs ins)" by (simp add: is_forward_def)
  have s: "Forward p outs ins \<notin> set (trace (startup cfg e))"
    using startup_trace quiet_kinds f by blast
  have r: "Forward p outs ins \<notin> set (trace (read_request cfg e))"
    using read_request_trace f by blast
  have ce: "Forward p outs ins \<notin> set (trace (create_engine cfg e c))" for c
    using create_engine_trace quiet_kinds f by blast
  have mt: "Forward p outs ins \<notin> set (trace (make_tensors cfg inp))" for inp
    using make_tensors_trace f by blast
  have cr: "Forward p outs ins \<notin> set (trace (collect_results cfg e inp))" for inp
    using collect_results_trace f by blast
  show ?thesis
  proof (cases rule: run_cases [of cfg e])
    case (startup_stops h es)
    then show ?thesis using assms s by simp
  next
    case (request_stops c es h es')
    then show ?thesis using assms s r by simp
  next
    case (generates c es inp es')
    have g: "Forward p outs ins \<in> set (trace (generate cfg e c inp))"
      using assms generates s r by simp
    have "outs = output_tensors (build_tensors cfg inp)
           \<and> ins = input_tensors (build_tensors cfg inp)"
    proof (cases rule: generate_cases [of cfg e c inp])
      case (engine_stops h es1)
      then show ?thesis using g ce [of c] by simp
    next
      case (collect_stops es1 h es3)
      then show ?thesis using g ce [of c] mt [of inp] cr [of inp]
        by (auto simp: run_warmup_eq)
    next
      case (completes es1 es3)
      then show ?thesis using g ce [of c] mt [of inp] cr [of inp]
        by (auto simp: run_warmup_eq run_measured_eq)
    qed
    moreover have "set es' \<subseteq> set (trace (multi_gpu_gpt_example cfg e))"
      by (simp only: generates(3) set_append) blast
    ultimately show ?thesis using generates(2) by blast
  qed
qed

lemma filter_none: "(\<And>x. x \<in> set xs \<Longrightarrow> \<not> P x) \<Longrightarrow> filter P xs = []"
  by (simp add: filter_empty_conv)

lemma int_add_Some_eq: "int_add a b = Some n \<Longrightarrow> n = a + b"
  by (simp add: int_add_def split: if_splits)



lemma read_request_too_long:
  assumes "uint (max_seq_len cfg) < sint (file_max_input_len e) + sint (request_output_len cfg)
           \<or> sint (int_of_size (max_seq_len cfg))
                < sint (file_max_input_len e) + sint (request_output_len cfg)"
  shows "\<exists>es. read_request cfg e = Halt Undefined es
           \<or> read_request cfg e = Halt (Exit (- 1))
                (es @ [Printf fmt_total_output_len
                   [I (file_max_input_len e + request_output_len cfg), L (max_seq_len cfg)]])"
proof (cases "int_add (file_max_input_len e) (request_output_len cfg)")
  case None
  then show ?thesis by (auto simp: read_request_def and_then_def prim_defs Let_def)
next
  case (Some n)
  then have s: "sint n = sint (file_max_input_len e) + sint (request_output_len cfg)"
    and n: "n = file_max_input_len e + request_output_len cfg"
    by (simp_all add: int_add_Some int_add_Some_eq)
  have "sint (int_of_size (max_seq_len cfg)) < sint n"
  proof (cases "uint (max_seq_len cfg) < sint n")
    case True
    then have "uint (max_seq_len cfg) < 2 ^ 31" using sint_lt [of n] by simp
    then show ?thesis using True by (simp add: sint_int_of_size_small)
  next
    case False
    then show ?thesis using assms s by simp
  qed
  then show ?thesis using Some n
    by (auto simp: read_request_def and_then_def prim_defs Let_def)
qed

subsection \<open>The layers-per-group check\<close>

lemma check_model_shape_Go:
  assumes "check_model_shape cfg = Go u es"
  shows "size_of_int (pipeline_para_size cfg) \<noteq> 0"
    and "decoder_layers cfg mod size_of_int (pipeline_para_size cfg) = 0"
    and "size_of_int (tensor_para_size cfg) \<noteq> 0"
    and "head_num cfg mod size_of_int (tensor_para_size cfg) = 0"
  using assms
  by (auto simp: check_model_shape_def and_then_def prim_defs size_mod_def
      split: option.splits if_splits)

text \<open>
  Once the assertion of line 102 has passed, the comparison of line 128 cannot fail:
  the quotient is exact, and truncating it to \<^verbatim>\<open>int\<close> keeps the product equal to the
  truncated \<^verbatim>\<open>decoder_layers\<close>.
\<close>

lemma split_layers_after_assertion:
  assumes "check_model_shape cfg = Go u es"
  shows "trace (split_layers cfg) = []"
proof -
  let ?P = "size_of_int (pipeline_para_size cfg)"
  let ?lpg = "int_of_size (decoder_layers cfg div ?P)"
  have nz: "?P \<noteq> 0" and m: "decoder_layers cfg mod ?P = 0"
    using check_model_shape_Go [OF assms] by simp_all
  have q: "size_div (decoder_layers cfg) ?P = Some (decoder_layers cfg div ?P)"
    using nz by (simp add: size_div_def)
  have eq: "?lpg * pipeline_para_size cfg = int_of_size (decoder_layers cfg)"
    using m by (rule layers_product)
  show ?thesis
  proof (cases "int_mul ?lpg (pipeline_para_size cfg)")
    case None
    then show ?thesis using q by (simp add: split_layers_def and_then_def prim_defs Let_def)
  next
    case (Some n)
    then have "n = ?lpg * pipeline_para_size cfg" by (simp add: int_mul_def split: if_splits)
    then have "n = int_of_size (decoder_layers cfg)" using eq by simp
    then show ?thesis using q Some
      by (simp add: split_layers_def and_then_def prim_defs Let_def)
  qed
qed

lemma query_devices_no_layers_report:
  "ev \<in> set (trace (query_devices e)) \<Longrightarrow> \<not> reports_layers_per_group ev"
  by (auto simp: query_devices_def trace_and_then prim_defs kind_defs fmt_defs
      split: option.splits step.splits if_splits)

lemma check_world_size_no_layers_report:
  "ev \<in> set (trace (check_world_size cfg e)) \<Longrightarrow> \<not> reports_layers_per_group ev"
  using check_world_size_trace [of ev cfg e] by (auto simp: kind_defs fmt_defs)

lemma form_communicators_no_layers_report:
  "ev \<in> set (trace (form_communicators cfg e c)) \<Longrightarrow> \<not> reports_layers_per_group ev"
  by (auto simp: form_communicators_def trace_and_then prim_defs kind_defs
      split: option.splits step.splits if_splits)

lemma read_request_no_layers_report:
  "ev \<in> set (trace (read_request cfg e)) \<Longrightarrow> \<not> reports_layers_per_group ev"
  by (auto simp: read_request_def and_then_def prim_defs Let_def kind_defs fmt_defs
      split: option.splits if_splits)

lemma create_engine_no_layers_report:
  "ev \<in> set (trace (create_engine cfg e c)) \<Longrightarrow> \<not> reports_layers_per_group ev"
  by (auto simp: create_engine_def and_then_def prim_defs Let_def kind_defs split: if_splits)

lemma write_element_no_layers_report:
  "ev \<in> set (write_element e t i) \<Longrightarrow> \<not> reports_layers_per_group ev"
  by (auto simp: write_element_def kind_defs fmt_defs split: if_splits)

lemma collect_results_no_layers_report:
  "ev \<in> set (trace (collect_results cfg e inp)) \<Longrightarrow> \<not> reports_layers_per_group ev"
  by (auto simp: collect_results_def and_then_def prim_defs Let_def kind_defs fmt_defs
      dest!: write_element_no_layers_report split: option.splits if_splits)

lemma generate_no_layers_report:
  assumes "ev \<in> set (trace (generate cfg e c inp))"
  shows "\<not> reports_layers_per_group ev"
proof -
  have mt: "ev \<in> set (trace (make_tensors cfg inp)) \<Longrightarrow> \<not> reports_layers_per_group ev"
    by (auto simp: make_tensors_eq kind_defs)
  have rw: "ev \<in> set (trace (run_warmup (build_tensors cfg inp))) \<Longrightarrow>
      \<not> reports_layers_per_group ev"
    by (auto simp: run_warmup_eq kind_defs)
  have rm: "ev \<in> set (trace (run_measured cfg e inp (build_tensors cfg inp))) \<Longrightarrow>
      \<not> reports_layers_per_group ev"
    by (auto simp: run_measured_eq kind_defs fmt_defs)
  show ?thesis
  proof (cases rule: generate_cases [of cfg e c inp])
    case (engine_stops h es)
    then show ?thesis using assms create_engine_no_layers_report [of ev cfg e c] by auto
  next
    case (collect_stops es1 h es3)
    then show ?thesis
      using assms create_engine_no_layers_report [of ev cfg e c] mt rw
        collect_results_no_layers_report [of ev cfg e inp] by auto
  next
    case (completes es1 es3)
    then show ?thesis
      using assms create_engine_no_layers_report [of ev cfg e c] mt rw rm
        collect_results_no_layers_report [of ev cfg e inp] by auto
  qed
qed

lemma startup_no_layers_report:
  assumes "ev \<in> set (trace (startup cfg e))"
  shows "\<not> reports_layers_per_group ev"
proof (cases "check_model_shape cfg")
  case (Halt h es)
  then have "startup cfg e = Halt h es" by (simp add: startup_def and_then_Halt)
  moreover have "es = []" using check_model_shape_trace [of cfg] Halt by simp
  ultimately show ?thesis using assms by simp
next
  case (Go u es)
  have sl: "trace (split_layers cfg) = []" using Go by (rule split_layers_after_assertion)
  consider "ev \<in> set (trace (check_model_shape cfg))" | "ev \<in> set (trace (query_devices e))"
    | "ev \<in> set (trace (check_world_size cfg e))"
    | "\<exists>r. ev \<in> set (trace (rank_coordinates (tensor_para_size cfg) r))"
    | "ev \<in> set (trace (split_layers cfg))"
    | "\<exists>c. ev \<in> set (trace (form_communicators cfg e c))"
    using assms unfolding startup_def by (auto dest!: in_trace_and_then; blast)
  then show ?thesis
  proof cases
    case 1 then show ?thesis by (simp add: check_model_shape_trace)
  next
    case 2 then show ?thesis by (rule query_devices_no_layers_report)
  next
    case 3 then show ?thesis by (rule check_world_size_no_layers_report)
  next
    case 4 then show ?thesis by (simp add: rank_coordinates_trace)
  next
    case 5 then show ?thesis by (simp add: sl)
  next
    case 6 then show ?thesis using form_communicators_no_layers_report by blast
  qed
qed

text \<open>No run prints the layers-per-group diagnostic of lines 129 to 132.\<close>

lemma layers_diagnostic_unreachable:
  "\<not> list_ex reports_layers_per_group (trace (multi_gpu_gpt_example cfg e))"
proof -
  have "\<not> reports_layers_per_group ev"
    if ev: "ev \<in> set (trace (multi_gpu_gpt_example cfg e))" for ev
  proof (cases rule: run_cases [of cfg e])
    case (startup_stops h es)
    then show ?thesis using ev startup_no_layers_report [of ev cfg e] by simp
  next
    case (request_stops c es h es')
    then show ?thesis
      using ev startup_no_layers_report [of ev cfg e] read_request_no_layers_report [of ev cfg e]
      by auto
  next
    case (generates c es inp es')
    then show ?thesis
      using ev startup_no_layers_report [of ev cfg e] read_request_no_layers_report [of ev cfg e]
        generate_no_layers_report [of ev cfg e c inp]
      by auto
  qed
  then show ?thesis unfolding list_ex_iff by blast
qed

subsection \<open>Order of the calls of a run that returns\<close>

lemma quiet_order:
  "quiet ev \<Longrightarrow> \<not> collects_results ev \<and> \<not> in_measured_pass ev \<and> \<not> reports_latency ev"
  using in_measured_pass_kinds [of ev] by (auto simp: quiet_def)

text \<open>
  A run that returns has read the request and collected the results, and its last calls
  are those of the measured pass; no call before the collection belongs to the result
  collection, to the measured pass or to the report.
\<close>

lemma returned_run_order:
  assumes "ending (multi_gpu_gpt_example cfg e) = Returned"
  shows "\<exists>pre inp es' col. read_request cfg e = Go inp es'
           \<and> collect_results cfg e inp = Go () col
           \<and> trace (multi_gpu_gpt_example cfg e) =
               pre @ col @ trace (run_measured cfg e inp (build_tensors cfg inp))
           \<and> (\<forall>ev\<in>set pre. \<not> collects_results ev \<and> \<not> in_measured_pass ev
                 \<and> \<not> reports_latency ev)"
proof -
  obtain c es inp es' es1 es3 where s: "startup cfg e = Go c es"
    and r: "read_request cfg e = Go inp es'"
    and ce: "create_engine cfg e c = Go () es1" and cr: "collect_results cfg e inp = Go () es3"
    and t: "trace (multi_gpu_gpt_example cfg e) =
       es @ es' @ es1 @ trace (make_tensors cfg inp) @ trace (run_warmup (build_tensors cfg inp))
       @ es3 @ trace (run_measured cfg e inp (build_tensors cfg inp))"
    using run_Returned [OF assms] by blast
  let ?pre = "es @ es' @ es1 @ trace (make_tensors cfg inp)
              @ trace (run_warmup (build_tensors cfg inp))"
  have 1: "\<forall>ev\<in>set es. \<not> collects_results ev \<and> \<not> in_measured_pass ev \<and> \<not> reports_latency ev"
  proof
    fix ev assume "ev \<in> set es"
    then have "quiet ev" using startup_trace [of ev cfg e] s by simp
    then show "\<not> collects_results ev \<and> \<not> in_measured_pass ev \<and> \<not> reports_latency ev"
      by (rule quiet_order)
  qed
  have 2: "\<forall>ev\<in>set es'. \<not> collects_results ev \<and> \<not> in_measured_pass ev \<and> \<not> reports_latency ev"
  proof
    fix ev assume "ev \<in> set es'"
    then have "\<not> is_forward ev \<and> \<not> collects_results ev \<and> \<not> reads_clock ev
        \<and> \<not> reports_latency ev"
      using read_request_trace [of ev cfg e] r by simp
    then show "\<not> collects_results ev \<and> \<not> in_measured_pass ev \<and> \<not> reports_latency ev"
      using in_measured_pass_kinds [of ev] by blast
  qed
  have 3: "\<forall>ev\<in>set es1. \<not> collects_results ev \<and> \<not> in_measured_pass ev \<and> \<not> reports_latency ev"
  proof
    fix ev assume "ev \<in> set es1"
    then have "quiet ev" using create_engine_trace [of ev cfg e c] ce by simp
    then show "\<not> collects_results ev \<and> \<not> in_measured_pass ev \<and> \<not> reports_latency ev"
      by (rule quiet_order)
  qed
  have 4: "\<forall>ev\<in>set (trace (make_tensors cfg inp)).
             \<not> collects_results ev \<and> \<not> in_measured_pass ev \<and> \<not> reports_latency ev"
    using make_tensors_trace [of _ cfg inp] in_measured_pass_kinds by blast
  have 5: "\<forall>ev\<in>set (trace (run_warmup (build_tensors cfg inp))).
             \<not> collects_results ev \<and> \<not> in_measured_pass ev \<and> \<not> reports_latency ev"
    using run_warmup_trace [of _ "build_tensors cfg inp"] by blast
  have p: "\<forall>ev\<in>set ?pre. \<not> collects_results ev \<and> \<not> in_measured_pass ev \<and> \<not> reports_latency ev"
    using 1 2 3 4 5 by auto
  have t': "trace (multi_gpu_gpt_example cfg e) =
      ?pre @ es3 @ trace (run_measured cfg e inp (build_tensors cfg inp))"
    using t by simp
  show ?thesis
    using r cr t' p by (intro exI [of _ ?pre] exI [of _ inp] exI [of _ es'] exI [of _ es3]) simp
qed

subsection \<open>The length check of lines 208 to 212\<close>

lemma int_add_in_range:
  "int_in_range (sint a + sint b) \<Longrightarrow> int_add a b = Some (a + b)"
  by (simp add: int_add_def)

lemma read_request_accepts:
  assumes "int_in_range (sint (file_max_input_len e) + sint (request_output_len cfg))"
    and "sint (file_max_input_len e) + sint (request_output_len cfg)
           \<le> sint (int_of_size (max_seq_len cfg))"
  shows "read_request cfg e =
     Go \<lparr>d_input_ids = (if file_max_input_len e = 0 then nullptr else Dev Input_ids),
         d_input_lengths = (if file_max_input_len e = 0 then nullptr else Dev Input_lengths),
         max_input_len = file_max_input_len e,
         total_output_len = file_max_input_len e + request_output_len cfg\<rparr>
       (Read_start_ids (request_batch_size cfg) end_id (beam_width cfg)
          ''../examples/cpp/multi_gpu_gpt/start_ids.csv''
        # (if file_max_input_len e = 0 then []
           else [DeviceMalloc Input_ids
                   (request_batch_size cfg * beam_width cfg * size_of_int (file_max_input_len e)),
                 DeviceMalloc Input_lengths (request_batch_size cfg * beam_width cfg),
                 CudaH2Dcpy Input_ids (file_start_ids e)
                   (request_batch_size cfg * beam_width cfg * size_of_int (file_max_input_len e)),
                 CudaH2Dcpy Input_lengths (file_start_lengths e)
                   (request_batch_size cfg * beam_width cfg)]))"
proof -
  have s: "int_add (file_max_input_len e) (request_output_len cfg)
             = Some (file_max_input_len e + request_output_len cfg)"
    using assms(1) by (rule int_add_in_range)
  have "sint (file_max_input_len e + request_output_len cfg)
          = sint (file_max_input_len e) + sint (request_output_len cfg)"
    using int_add_Some [OF s] .
  then have le: "\<not> sint (int_of_size (max_seq_len cfg))
                   < sint (file_max_input_len e + request_output_len cfg)"
    using assms(2) by simp
  show ?thesis
  proof (cases "file_max_input_len e = 0")
    case True
    have s0: "int_add 0 (request_output_len cfg) = Some (request_output_len cfg)"
      using s by (simp add: True)
    have "\<not> sint (int_of_size (max_seq_len cfg)) < sint (request_output_len cfg)"
      using le by (simp add: True)
    then show ?thesis
      by (simp add: read_request_def and_then_def prim_defs Let_def True s0)
  next
    case False
    then show ?thesis
      using le by (simp add: read_request_def and_then_def prim_defs Let_def s)
  qed
qed

lemma read_request_rejects:
  assumes "int_in_range (sint (file_max_input_len e) + sint (request_output_len cfg))"
    and "sint (int_of_size (max_seq_len cfg))
           < sint (file_max_input_len e) + sint (request_output_len cfg)"
  shows "read_request cfg e =
     Halt (Exit (- 1))
       (Read_start_ids (request_batch_size cfg) end_id (beam_width cfg)
          ''../examples/cpp/multi_gpu_gpt/start_ids.csv''
        # (if file_max_input_len e = 0 then []
           else [DeviceMalloc Input_ids
                   (request_batch_size cfg * beam_width cfg * size_of_int (file_max_input_len e)),
                 DeviceMalloc Input_lengths (request_batch_size cfg * beam_width cfg),
                 CudaH2Dcpy Input_ids (file_start_ids e)
                   (request_batch_size cfg * beam_width cfg * size_of_int (file_max_input_len e)),
                 CudaH2Dcpy Input_lengths (file_start_lengths e)
                   (request_batch_size cfg * beam_width cfg)])
        @ [Printf fmt_total_output_len
             [I (file_max_input_len e + request_output_len cfg), L (max_seq_len cfg)]])"
proof -
  have s: "int_add (file_max_input_len e) (request_output_len cfg)
             = Some (file_max_input_len e + request_output_len cfg)"
    using assms(1) by (rule int_add_in_range)
  have "sint (file_max_input_len e + request_output_len cfg)
          = sint (file_max_input_len e) + sint (request_output_len cfg)"
    using int_add_Some [OF s] .
  then have gt: "sint (int_of_size (max_seq_len cfg))
                   < sint (file_max_input_len e + request_output_len cfg)"
    using assms(2) by simp
  show ?thesis
  proof (cases "file_max_input_len e = 0")
    case True
    have s0: "int_add 0 (request_output_len cfg) = Some (request_output_len cfg)"
      using s by (simp add: True)
    have "sint (int_of_size (max_seq_len cfg)) < sint (request_output_len cfg)"
      using gt by (simp add: True)
    then show ?thesis
      by (simp add: read_request_def and_then_def prim_defs Let_def True s0)
  next
    case False
    then show ?thesis
      using gt by (simp add: read_request_def and_then_def prim_defs Let_def s)
  qed
qed

text \<open>
  Once the request has been accepted and the engine created, the output arrays are
  allocated and the warm-up call is made; nothing stops the run but an undefined count
  in the result collection.
\<close>

lemma accepted_run:
  assumes s: "startup cfg e = Go c es" and r: "read_request cfg e = Go inp es'"
    and ce: "create_engine cfg e c = Go () es1"
  shows "(ending (multi_gpu_gpt_example cfg e) = Returned
          \<or> ending (multi_gpu_gpt_example cfg e) = Stopped Undefined)
       \<and> filter allocates_output (trace (multi_gpu_gpt_example cfg e)) =
           [DeviceMalloc Output_ids
              (request_batch_size cfg * beam_width cfg * size_of_int (total_output_len inp)),
            DeviceMalloc Parent_ids
              (request_batch_size cfg * beam_width cfg * size_of_int (total_output_len inp)),
            DeviceMalloc Sequence_lengths (request_batch_size cfg * beam_width cfg)]
       \<and> Forward warmup (output_tensors (build_tensors cfg inp))
            (input_tensors (build_tensors cfg inp))
           \<in> set (trace (multi_gpu_gpt_example cfg e))"
proof (cases rule: run_cases [of cfg e])
  case (startup_stops h es0)
  then show ?thesis using s by simp
next
  case (request_stops c0 es0 h es0')
  then show ?thesis using r by simp
next
  case (generates c0 es0 inp0 es0')
  have eq: "c0 = c" "es0 = es" "inp0 = inp" "es0' = es'"
    using generates(1,2) s r by simp_all
  have a: "filter allocates_output es = []" "filter allocates_output es' = []"
    "filter allocates_output es1 = []"
    using startup_trace [of _ cfg e] read_request_trace [of _ cfg e]
      create_engine_trace [of _ cfg e c] quiet_kinds s r ce
    by (auto intro!: filter_none)
  show ?thesis
  proof (cases rule: generate_cases [of cfg e c inp])
    case (engine_stops h es2)
    then show ?thesis using ce by simp
  next
    case (collect_stops es2 h es3)
    have h: "h = Undefined" using collect_results_stop [OF collect_stops(2)] .
    have es2: "es2 = es1" using collect_stops(1) ce by simp
    have a3: "filter allocates_output es3 = []"
      using collect_results_trace [of _ cfg e inp] collect_stops(2)
      by (auto intro!: filter_none)
    have t: "trace (multi_gpu_gpt_example cfg e) =
        es @ es' @ es1 @ trace (make_tensors cfg inp)
        @ trace (run_warmup (build_tensors cfg inp)) @ es3"
      using generates(3) collect_stops(3) by (simp add: eq es2)
    have en: "ending (multi_gpu_gpt_example cfg e) = Stopped Undefined"
      using generates(4) collect_stops(3) by (simp add: eq h)
    show ?thesis
      by (simp add: en t a a3 make_tensors_eq run_warmup_eq kind_defs)
  next
    case (completes es2 es3)
    have es2: "es2 = es1" using completes(1) ce by simp
    have a3: "filter allocates_output es3 = []"
      using collect_results_trace [of _ cfg e inp] completes(2)
      by (auto intro!: filter_none)
    have t: "trace (multi_gpu_gpt_example cfg e) =
        es @ es' @ es1 @ trace (make_tensors cfg inp)
        @ trace (run_warmup (build_tensors cfg inp)) @ es3
        @ trace (run_measured cfg e inp (build_tensors cfg inp))"
      using generates(3) completes(3) by (simp add: eq es2)
    have en: "ending (multi_gpu_gpt_example cfg e) = Returned"
      using generates(4) completes(3) by (simp add: eq)
    show ?thesis
      by (simp add: en t a a3 make_tensors_eq run_warmup_eq run_measured_eq kind_defs fmt_defs)
  qed
qed


subsection \<open>Example runs\<close>

lemmas run_defs = multi_gpu_gpt_example_def check_model_shape_def query_devices_def
  check_world_size_def rank_coordinates_def split_layers_def form_communicators_def
  read_request_def create_engine_def make_tensors_def build_tensors_def run_warmup_def
  collect_results_def run_measured_def forward_loop_once write_element_def zero_count_def
  and_then_def prim_defs arith_defs example_defs Let_def hidden_units_def inter_size_def
  outs0_def ins0_def Tensor_def

lemma upt_8: "[0..<8] = [0, 1, 2, 3, 4, 5, 6, 7 :: nat]"
  by code_simp

text \<open>Rank 2 of the 2 by 2 grid: no result file, warm-up pass, measured pass, report.\<close>

lemma example_run_rank2:
  "multi_gpu_gpt_example cfg0 env_rank2 =
     Go ()
       [MPI_Comm_rank MPI_COMM_WORLD, MPI_Comm_size MPI_COMM_WORLD, CudaGetDeviceCount,
        CudaSetDevice 2, CudaGetDevice, CudaGetDeviceProperties 2,
        Printf ''Device %s\<newline>'' [S ''GPU''],
        Printf ''P%d is runing with %d GPU.\<newline>'' [I 2, I 2],
        MPI_Cart_create MPI_COMM_WORLD [2, 2] [0, 0] 0,
        MPI_Cart_sub grid_comm [False, True] comm_tensor_parallel,
        MPI_Cart_sub grid_comm [True, False] comm_pipeline_parallel,
        MPI_Comm_rank comm_tensor_parallel, MPI_Comm_rank comm_pipeline_parallel,
        NcclGetUniqueId tensor_para,
        MPI_Bcast_uid tensor_para 0 comm_tensor_parallel,
        MPI_Bcast_uid pipeline_para 0 comm_pipeline_parallel,
        NcclCommInitRank tensor_para 2 0, NcclCommInitRank pipeline_para 2 1,
        Read_start_ids 1 end_id 1 ''../examples/cpp/multi_gpu_gpt/start_ids.csv'',
        CudaStreamCreate, CublasCreate, CublasLtCreate, CublasSetStream,
        New_cublasAlgoMap ''gemm_config.in'', New_allocator, New_cublas_wrapper_mutex,
        New_cublasMMWrapper, SetFP32GemmConfig,
        New_ParallelGptWeight [1024, 4096, 50304, 4, 16] [2, 0, 2, 1], LoadModel,
        MPI_Bcast_seed 0 MPI_COMM_WORLD,
        New_ParallelGpt [0, 0, 0, 1, 16, 64, 4096, 4, 50304]
          [start_id, end_id, 1, 2, 0, 2, 1] (Some 0),
        DeviceMalloc Output_ids 8, DeviceMalloc Parent_ids 8, DeviceMalloc Sequence_lengths 1,
        Print_mem_usage, CudaDeviceSynchronize, MPI_Barrier MPI_COMM_WORLD, CudaProfilerStart,
        Nvtx_setScope ''warmup_time'', PUSH_RANGE ''warmup time'',
        Forward warmup outs0 ins0,
        CudaDeviceSynchronize, MPI_Barrier MPI_COMM_WORLD, POP_RANGE, Nvtx_resetScope,
        MPI_Barrier MPI_COMM_WORLD, CudaDeviceSynchronize, Gettimeofday tv_start_var,
        Nvtx_setScope ''total_time'', PUSH_RANGE ''total time'',
        Forward measured outs0 ins0,
        CudaDeviceSynchronize, MPI_Barrier MPI_COMM_WORLD, POP_RANGE, Nvtx_resetScope,
        Gettimeofday tv_end_var, CudaProfilerStop,
        Printf fmt_info [L 1, L 1, L 16, L 64, I 8, L 4, L 50304, Elapsed_ms (10, 0) (11, 500) ite],
        NcclCommDestroy tensor_para, NcclCommDestroy pipeline_para,
        Delete_cublas_algo_map, Delete_cublas_wrapper_mutex]"
  by (simp add: run_defs)

text \<open>
  Rank 0 of the same grid: after the warm-up it opens the file \<^verbatim>\<open>out\<close>, copies the eight
  output ids to the host and writes them, and only then runs the measured pass.
\<close>

lemma example_run_rank0:
  "multi_gpu_gpt_example cfg0 env_rank0 =
     Go ()
       [MPI_Comm_rank MPI_COMM_WORLD, MPI_Comm_size MPI_COMM_WORLD,
        Printf ''Total ranks: %d.\<newline>'' [I 4], CudaGetDeviceCount,
        CudaSetDevice 0, CudaGetDevice, CudaGetDeviceProperties 0,
        Printf ''Device %s\<newline>'' [S ''GPU''],
        Printf ''P%d is runing with %d GPU.\<newline>'' [I 0, I 0],
        MPI_Cart_create MPI_COMM_WORLD [2, 2] [0, 0] 0,
        MPI_Cart_sub grid_comm [False, True] comm_tensor_parallel,
        MPI_Cart_sub grid_comm [True, False] comm_pipeline_parallel,
        MPI_Comm_rank comm_tensor_parallel, MPI_Comm_rank comm_pipeline_parallel,
        NcclGetUniqueId tensor_para, NcclGetUniqueId pipeline_para,
        MPI_Bcast_uid tensor_para 0 comm_tensor_parallel,
        MPI_Bcast_uid pipeline_para 0 comm_pipeline_parallel,
        NcclCommInitRank tensor_para 2 0, NcclCommInitRank pipeline_para 2 0,
        Read_start_ids 1 end_id 1 ''../examples/cpp/multi_gpu_gpt/start_ids.csv'',
        CudaStreamCreate, CublasCreate, CublasLtCreate, CublasSetStream,
        New_cublasAlgoMap ''gemm_config.in'', New_allocator, New_cublas_wrapper_mutex,
        New_cublasMMWrapper, SetFP32GemmConfig,
        New_ParallelGptWeight [1024, 4096, 50304, 4, 16] [2, 0, 2, 0], LoadModel,
        MPI_Bcast_seed 0 MPI_COMM_WORLD,
        New_ParallelGpt [0, 0, 0, 1, 16, 64, 4096, 4, 50304]
          [start_id, end_id, 1, 2, 0, 2, 0] (Some 0),
        DeviceMalloc Output_ids 8, DeviceMalloc Parent_ids 8, DeviceMalloc Sequence_lengths 1,
        Print_mem_usage, CudaDeviceSynchronize, MPI_Barrier MPI_COMM_WORLD, CudaProfilerStart,
        Nvtx_setScope ''warmup_time'', PUSH_RANGE ''warmup time'',
        Forward warmup outs0 ins0,
        CudaDeviceSynchronize, MPI_Barrier MPI_COMM_WORLD, POP_RANGE, Nvtx_resetScope,
        Ofstream_open ''out'', New_hBuf 8, CudaD2Hcpy Output_ids 8,
        Cout [S ''Writing '', L 8, S '' elements\<newline>''],
        OutFile [I 0, S '' ''], Printf ''%5d '' [I 0],
        OutFile [I 1, S '' ''], Printf ''%5d '' [I 1],
        OutFile [I 2, S '' ''], Printf ''%5d '' [I 2],
        OutFile [I 3, S '' ''], Printf ''%5d '' [I 3],
        OutFile [I 4, S '' ''], Printf ''%5d '' [I 4],
        OutFile [I 5, S '' ''], Printf ''%5d '' [I 5],
        OutFile [I 6, S '' ''], Printf ''%5d '' [I 6],
        OutFile [I 7, S '' ''], OutFile [S ''\<newline>''], Printf ''%5d '' [I 7],
        Cout [S ''\<newline>''],
        Cout [S ''\<newline>'', S ''zeroCount = '', I 1, S ''\<newline>''], Delete_hBuf,
        MPI_Barrier MPI_COMM_WORLD, CudaDeviceSynchronize, Gettimeofday tv_start_var,
        Nvtx_setScope ''total_time'', PUSH_RANGE ''total time'',
        Forward measured outs0 ins0,
        CudaDeviceSynchronize, MPI_Barrier MPI_COMM_WORLD, POP_RANGE, Nvtx_resetScope,
        Gettimeofday tv_end_var, CudaProfilerStop,
        Printf fmt_info [L 1, L 1, L 16, L 64, I 8, L 4, L 50304, Elapsed_ms (10, 0) (11, 500) ite],
        NcclCommDestroy tensor_para, NcclCommDestroy pipeline_para,
        Delete_cublas_algo_map, Delete_cublas_wrapper_mutex]"
  by (simp add: run_defs upt_8)

text \<open>A request for 32 tokens with a maximum sequence length of 16.\<close>

lemma long_request_run:
  "multi_gpu_gpt_example cfg_long env_rank2 =
     Halt (Exit (- 1))
       [MPI_Comm_rank MPI_COMM_WORLD, MPI_Comm_size MPI_COMM_WORLD, CudaGetDeviceCount,
        CudaSetDevice 2, CudaGetDevice, CudaGetDeviceProperties 2,
        Printf ''Device %s\<newline>'' [S ''GPU''],
        Printf ''P%d is runing with %d GPU.\<newline>'' [I 2, I 2],
        MPI_Cart_create MPI_COMM_WORLD [2, 2] [0, 0] 0,
        MPI_Cart_sub grid_comm [False, True] comm_tensor_parallel,
        MPI_Cart_sub grid_comm [True, False] comm_pipeline_parallel,
        MPI_Comm_rank comm_tensor_parallel, MPI_Comm_rank comm_pipeline_parallel,
        NcclGetUniqueId tensor_para,
        MPI_Bcast_uid tensor_para 0 comm_tensor_parallel,
        MPI_Bcast_uid pipeline_para 0 comm_pipeline_parallel,
        NcclCommInitRank tensor_para 2 0, NcclCommInitRank pipeline_para 2 1,
        Read_start_ids 1 end_id 1 ''../examples/cpp/multi_gpu_gpt/start_ids.csv'',
        Printf fmt_total_output_len [I 32, L 16]]"
  by (simp add: run_defs)


section \<open>The claims\<close>

subsection \<open>Order of result collection and measured pass\<close>

text \<open>
  Claim C1, as stated, on rank 0 of the example grid: the file is opened and the output
  ids are copied and written before the clock is read and before the measured forward
  call, so a call of the result collection is followed by calls of the measured pass.
\<close>

theorem collection_before_measured_counterexample:
  "\<not> never_followed_by collects_results in_measured_pass (trace (multi_gpu_gpt_example cfg0 env_rank0))"
  by (simp add: example_run_rank0 kind_defs)

text \<open>
  Claim C1, amended. In every run the result collection comes after the forward call of
  the warm-up pass and before the measured pass: no call of the measured pass (clock
  readings, measured forward call) is followed by a call of the result collection, and
  no call of the result collection is followed by a warm-up forward call.
\<close>

theorem results_collected_between_passes:
  "never_followed_by in_measured_pass collects_results (trace (multi_gpu_gpt_example cfg e))
   \<and> never_followed_by collects_results in_warmup_pass (trace (multi_gpu_gpt_example cfg e))"
proof -
  obtain pre col meas where t: "trace (multi_gpu_gpt_example cfg e) = pre @ col @ meas"
    and pre: "\<forall>ev\<in>set pre. \<not> collects_results ev \<and> \<not> in_measured_pass ev"
    and col: "\<forall>ev\<in>set col. \<not> in_measured_pass ev \<and> \<not> in_warmup_pass ev"
    and meas: "\<forall>ev\<in>set meas. \<not> collects_results ev \<and> \<not> in_warmup_pass ev"
    using run_phases_kinds [of cfg e] by blast
  have "never_followed_by in_measured_pass collects_results ((pre @ col) @ meas)"
    using pre col meas by (intro never_followed_by_split) auto
  moreover have "never_followed_by collects_results in_warmup_pass (pre @ (col @ meas))"
    using pre col meas by (intro never_followed_by_split) auto
  ultimately show ?thesis by (simp add: t)
qed

theorem results_collected_between_passes_witness:
  "list_ex in_warmup_pass (trace (multi_gpu_gpt_example cfg0 env_rank0))
   \<and> list_ex collects_results (trace (multi_gpu_gpt_example cfg0 env_rank0))
   \<and> list_ex in_measured_pass (trace (multi_gpu_gpt_example cfg0 env_rank0))
   \<and> never_followed_by in_measured_pass collects_results (trace (multi_gpu_gpt_example cfg0 env_rank0))
   \<and> never_followed_by collects_results in_warmup_pass (trace (multi_gpu_gpt_example cfg0 env_rank0))"
proof -
  have "list_ex in_warmup_pass (trace (multi_gpu_gpt_example cfg0 env_rank0))
   \<and> list_ex collects_results (trace (multi_gpu_gpt_example cfg0 env_rank0))
   \<and> list_ex in_measured_pass (trace (multi_gpu_gpt_example cfg0 env_rank0))"
    by (simp add: example_run_rank0 kind_defs)
  then show ?thesis using results_collected_between_passes [of cfg0 env_rank0] by blast
qed

subsection \<open>What only the coordinator does\<close>

text \<open>
  Claim C2, as stated, on rank 2 of the example grid: the rank is not 0, and its run
  reads the clock around the measured pass and prints the latency line.
\<close>

theorem timing_on_rank2_counterexample:
  "rank env_rank2 \<noteq> 0
   \<and> list_ex reads_clock (trace (multi_gpu_gpt_example cfg0 env_rank2))
   \<and> list_ex reports_latency (trace (multi_gpu_gpt_example cfg0 env_rank2))"
proof -
  have "rank env_rank2 \<noteq> 0" by (simp add: example_defs)
  then show ?thesis by (simp add: example_run_rank2 kind_defs)
qed

text \<open>
  Claim C2, amended. Only rank 0 touches the result file: on every other rank no call of
  the result collection is made. The timing is not guarded by the rank: every run that
  returns, on any rank, ends with the calls of lines 366 to 401 in this order: the clock
  is read into \<^verbatim>\<open>start\<close>, the measured forward call is made, the clock is read into
  \<^verbatim>\<open>end\<close>, and the latency line is printed. Before these calls the run has read no
  clock, made no measured forward call and printed no latency line; on rank 0 it has
  tried to open the result file.
\<close>

theorem only_rank0_collects_every_rank_times:
  "(rank e \<noteq> 0 \<longrightarrow> \<not> list_ex collects_results (trace (multi_gpu_gpt_example cfg e)))
   \<and> (ending (multi_gpu_gpt_example cfg e) = Returned \<longrightarrow>
        (\<exists>pre inp es'. read_request cfg e = Go inp es'
           \<and> trace (multi_gpu_gpt_example cfg e) =
               pre @ [MPI_Barrier MPI_COMM_WORLD, CudaDeviceSynchronize,
                      Gettimeofday tv_start_var,
                      Nvtx_setScope ''total_time'', PUSH_RANGE ''total time'',
                      Forward measured (output_tensors (build_tensors cfg inp))
                        (input_tensors (build_tensors cfg inp)),
                      CudaDeviceSynchronize, MPI_Barrier MPI_COMM_WORLD, POP_RANGE,
                      Nvtx_resetScope,
                      Gettimeofday tv_end_var, CudaProfilerStop,
                      Printf fmt_info
                        [L (request_batch_size cfg), L (beam_width cfg), L (head_num cfg),
                         L (size_per_head cfg), I (total_output_len inp),
                         L (decoder_layers cfg), L (vocab_size cfg),
                         Elapsed_ms (tv_start e) (tv_end e) ite],
                      NcclCommDestroy tensor_para, NcclCommDestroy pipeline_para,
                      Delete_cublas_algo_map, Delete_cublas_wrapper_mutex]
           \<and> \<not> list_ex in_measured_pass pre \<and> \<not> list_ex reports_latency pre
           \<and> (rank e = 0 \<longrightarrow> Ofstream_open ''out'' \<in> set pre)))"
proof (intro conjI impI)
  assume nz: "rank e \<noteq> 0"
  obtain pre col meas where t: "trace (multi_gpu_gpt_example cfg e) = pre @ col @ meas"
    and pre: "\<forall>ev\<in>set pre. \<not> collects_results ev \<and> \<not> in_measured_pass ev"
    and alt: "col = [] \<and> meas = [] \<and> ending (multi_gpu_gpt_example cfg e) \<noteq> Returned
        \<or> (\<exists>inp h. collect_results cfg e inp = Halt h col \<and> meas = []
              \<and> ending (multi_gpu_gpt_example cfg e) = Stopped h)
        \<or> (\<exists>inp. collect_results cfg e inp = Go () col
              \<and> meas = trace (run_measured cfg e inp (build_tensors cfg inp))
              \<and> ending (multi_gpu_gpt_example cfg e) = Returned)"
    using run_phases [of cfg e] by blast
  have m: "\<forall>ev\<in>set meas. \<not> collects_results ev"
    using alt run_measured_trace by auto
  have "col = []" using alt collect_results_other_rank [OF nz, of cfg] by auto
  then show "\<not> list_ex collects_results (trace (multi_gpu_gpt_example cfg e))"
    using pre m by (auto simp: t list_ex_iff)
next
  assume ret: "ending (multi_gpu_gpt_example cfg e) = Returned"
  obtain pre inp es' col where r: "read_request cfg e = Go inp es'"
    and c: "collect_results cfg e inp = Go () col"
    and t: "trace (multi_gpu_gpt_example cfg e) =
               pre @ col @ trace (run_measured cfg e inp (build_tensors cfg inp))"
    and p: "\<forall>ev\<in>set pre. \<not> collects_results ev \<and> \<not> in_measured_pass ev \<and> \<not> reports_latency ev"
    using returned_run_order [OF ret] by blast
  have col: "\<forall>ev\<in>set col. \<not> in_measured_pass ev \<and> \<not> reports_latency ev"
    using collect_results_trace [of _ cfg e inp] collect_results_trace' [of _ cfg e inp] c
    by auto
  have o: "rank e = 0 \<longrightarrow> Ofstream_open ''out'' \<in> set (pre @ col)"
    using collect_results_rank0 [of e cfg inp] c by simp
  have q: "\<not> list_ex in_measured_pass (pre @ col)" "\<not> list_ex reports_latency (pre @ col)"
    using p col by (auto simp: list_ex_iff)
  have t': "trace (multi_gpu_gpt_example cfg e) =
      (pre @ col) @ [MPI_Barrier MPI_COMM_WORLD, CudaDeviceSynchronize,
                      Gettimeofday tv_start_var,
                      Nvtx_setScope ''total_time'', PUSH_RANGE ''total time'',
                      Forward measured (output_tensors (build_tensors cfg inp))
                        (input_tensors (build_tensors cfg inp)),
                      CudaDeviceSynchronize, MPI_Barrier MPI_COMM_WORLD, POP_RANGE,
                      Nvtx_resetScope,
                      Gettimeofday tv_end_var, CudaProfilerStop,
                      Printf fmt_info
                        [L (request_batch_size cfg), L (beam_width cfg), L (head_num cfg),
                         L (size_per_head cfg), I (total_output_len inp),
                         L (decoder_layers cfg), L (vocab_size cfg),
                         Elapsed_ms (tv_start e) (tv_end e) ite],
                      NcclCommDestroy tensor_para, NcclCommDestroy pipeline_para,
                      Delete_cublas_algo_map, Delete_cublas_wrapper_mutex]"
    by (simp add: t run_measured_eq)
  show "\<exists>pre inp es'. read_request cfg e = Go inp es'
           \<and> trace (multi_gpu_gpt_example cfg e) =
               pre @ [MPI_Barrier MPI_COMM_WORLD, CudaDeviceSynchronize,
                      Gettimeofday tv_start_var,
                      Nvtx_setScope ''total_time'', PUSH_RANGE ''total time'',
                      Forward measured (output_tensors (build_tensors cfg inp))
                        (input_tensors (build_tensors cfg inp)),
                      CudaDeviceSynchronize, MPI_Barrier MPI_COMM_WORLD, POP_RANGE,
                      Nvtx_resetScope,
                      Gettimeofday tv_end_var, CudaProfilerStop,
                      Printf fmt_info
                        [L (request_batch_size cfg), L (beam_width cfg), L (head_num cfg),
                         L (size_per_head cfg), I (total_output_len inp),
                         L (decoder_layers cfg), L (vocab_size cfg),
                         Elapsed_ms (tv_start e) (tv_end e) ite],
                      NcclCommDestroy tensor_para, NcclCommDestroy pipeline_para,
                      Delete_cublas_algo_map, Delete_cublas_wrapper_mutex]
           \<and> \<not> list_ex in_measured_pass pre \<and> \<not> list_ex reports_latency pre
           \<and> (rank e = 0 \<longrightarrow> Ofstream_open ''out'' \<in> set pre)"
    using r t' q o by (intro exI [of _ "pre @ col"] exI [of _ inp] exI [of _ es']) simp
qed

theorem only_rank0_collects_every_rank_times_witness:
  "rank env_rank2 \<noteq> 0
   \<and> ending (multi_gpu_gpt_example cfg0 env_rank2) = Returned
   \<and> \<not> list_ex collects_results (trace (multi_gpu_gpt_example cfg0 env_rank2))
   \<and> (\<exists>pre inp es'. read_request cfg0 env_rank2 = Go inp es'
         \<and> trace (multi_gpu_gpt_example cfg0 env_rank2) =
               pre @ [MPI_Barrier MPI_COMM_WORLD, CudaDeviceSynchronize,
                      Gettimeofday tv_start_var,
                      Nvtx_setScope ''total_time'', PUSH_RANGE ''total time'',
                      Forward measured (output_tensors (build_tensors cfg0 inp))
                        (input_tensors (build_tensors cfg0 inp)),
                      CudaDeviceSynchronize, MPI_Barrier MPI_COMM_WORLD, POP_RANGE,
                      Nvtx_resetScope,
                      Gettimeofday tv_end_var, CudaProfilerStop,
                      Printf fmt_info
                        [L (request_batch_size cfg0), L (beam_width cfg0), L (head_num cfg0),
                         L (size_per_head cfg0), I (total_output_len inp),
                         L (decoder_layers cfg0), L (vocab_size cfg0),
                         Elapsed_ms (tv_start env_rank2) (tv_end env_rank2) ite],
                      NcclCommDestroy tensor_para, NcclCommDestroy pipeline_para,
                      Delete_cublas_algo_map, Delete_cublas_wrapper_mutex]
         \<and> \<not> list_ex in_measured_pass pre \<and> \<not> list_ex reports_latency pre)"
proof -
  have a: "rank env_rank2 \<noteq> 0" by (simp add: example_defs)
  have b: "ending (multi_gpu_gpt_example cfg0 env_rank2) = Returned"
    by (simp add: example_run_rank2)
  show ?thesis using a b only_rank0_collects_every_rank_times [of env_rank2 cfg0] by blast
qed


subsection \<open>Output buffers\<close>

text \<open>
  Claim C3, as stated, on rank 2 of the example grid: a forward call receives an output
  tensor whose buffer is null (the scores tensor of lines 307 to 310).
\<close>

theorem scores_buffer_is_null_counterexample:
  "list_ex passes_null_output (trace (multi_gpu_gpt_example cfg0 env_rank2))"
  by (simp add: example_run_rank2 kind_defs outs0_def Tensor_def)

text \<open>
  Claim C3, amended. A run that returns allocates exactly three output arrays on the
  device, output ids and parent ids of \<^verbatim>\<open>batch * beam * total_output_len\<close> elements and
  sequence lengths of \<^verbatim>\<open>batch * beam\<close>, and makes exactly two forward calls, the warm-up
  and the measured one. Both receive the same four output tensors with the shapes of
  section 3 of the specification; the first three point to the allocated arrays, the
  scores tensor has a null buffer and no array is allocated for it.
\<close>

theorem three_output_buffers_and_null_scores:
  assumes "ending (multi_gpu_gpt_example cfg e) = Returned"
  shows "(let batch = request_batch_size cfg; beam = beam_width cfg;
              total_len = size_of_int (file_max_input_len e + request_output_len cfg);
              outs = [Tensor MEMORY_GPU TYPE_INT32 [batch, beam, total_len] (Dev Output_ids),
                      Tensor MEMORY_GPU TYPE_INT32 [total_len, batch, beam] (Dev Parent_ids),
                      Tensor MEMORY_GPU TYPE_INT32 [batch, beam] (Dev Sequence_lengths),
                      Tensor MEMORY_GPU TYPE_FP32
                        [size_of_int (request_output_len cfg), batch, beam] nullptr]
          in filter allocates_output (trace (multi_gpu_gpt_example cfg e)) =
               [DeviceMalloc Output_ids (batch * beam * total_len),
                DeviceMalloc Parent_ids (batch * beam * total_len),
                DeviceMalloc Sequence_lengths (batch * beam)]
             \<and> (\<exists>ins. filter is_forward (trace (multi_gpu_gpt_example cfg e)) =
                        [Forward warmup outs ins, Forward measured outs ins]))"
proof -
  obtain c es inp es' es1 es3 where s: "startup cfg e = Go c es"
    and r: "read_request cfg e = Go inp es'"
    and ce: "create_engine cfg e c = Go () es1" and cr: "collect_results cfg e inp = Go () es3"
    and t: "trace (multi_gpu_gpt_example cfg e) =
       es @ es' @ es1 @ trace (make_tensors cfg inp) @ trace (run_warmup (build_tensors cfg inp))
       @ es3 @ trace (run_measured cfg e inp (build_tensors cfg inp))"
    using run_Returned [OF assms] by blast
  have tl: "total_output_len inp = file_max_input_len e + request_output_len cfg"
    using read_request_Go(2) [OF r] by (rule int_add_Some_eq)
  have a: "filter allocates_output es = []" "filter allocates_output es' = []"
    "filter allocates_output es1 = []" "filter allocates_output es3 = []"
    using startup_trace [of _ cfg e] read_request_trace [of _ cfg e]
      create_engine_trace [of _ cfg e c] collect_results_trace [of _ cfg e inp] quiet_kinds
      s r ce cr
    by (auto intro!: filter_none)
  have f: "filter is_forward es = []" "filter is_forward es' = []"
    "filter is_forward es1 = []" "filter is_forward es3 = []"
    using startup_trace [of _ cfg e] read_request_trace [of _ cfg e]
      create_engine_trace [of _ cfg e c] collect_results_trace [of _ cfg e inp] quiet_kinds
      s r ce cr
    by (auto intro!: filter_none)
  show ?thesis
    by (simp add: t a f make_tensors_eq run_warmup_eq run_measured_eq kind_defs fmt_defs
        build_tensors_def Let_def tl)
qed

theorem three_output_buffers_and_null_scores_witness:
  "ending (multi_gpu_gpt_example cfg0 env_rank2) = Returned
   \<and> filter allocates_output (trace (multi_gpu_gpt_example cfg0 env_rank2)) =
       [DeviceMalloc Output_ids 8, DeviceMalloc Parent_ids 8, DeviceMalloc Sequence_lengths 1]
   \<and> (\<exists>ins. filter is_forward (trace (multi_gpu_gpt_example cfg0 env_rank2)) =
         [Forward warmup outs0 ins, Forward measured outs0 ins])"
proof -
  have a: "ending (multi_gpu_gpt_example cfg0 env_rank2) = Returned"
    by (simp add: example_run_rank2)
  show ?thesis
    using a three_output_buffers_and_null_scores [OF a]
    by (simp add: Let_def example_defs size_of_int_def outs0_def)
qed

subsection \<open>Rank coordinates\<close>

lemma coords_in_grid:
  assumes "valid_grid t p w" "is_rank w r"
  shows "\<exists>a b. rank_coordinates t r = Go (a, b) [] \<and> sint a = sint r mod sint t
           \<and> sint b = sint r div sint t \<and> in_grid t p (a, b)"
proof -
  have t: "0 < sint t" and r: "0 \<le> sint r" and lt: "sint r < sint t * sint p"
    using assms by (simp_all add: valid_grid_def is_rank_def)
  obtain a b where ab: "rank_coordinates t r = Go (a, b) []" "sint a = sint r mod sint t"
      "sint b = sint r div sint t"
    using rank_coordinates_nonneg [OF r t] by blast
  have "0 \<le> sint r mod sint t" using t by simp
  then have "sint t * (sint r div sint t) < sint t * sint p"
    using lt mult_div_mod_eq [of "sint t" "sint r"] by linarith
  then have "sint r div sint t < sint p"
    using t by (simp add: mult_less_cancel_left_pos)
  moreover have "0 \<le> sint r div sint t" using r t by (simp add: pos_imp_zdiv_nonneg_iff)
  ultimately have "in_grid t p (a, b)" using ab t by (simp add: in_grid_def)
  then show ?thesis using ab by blast
qed

lemma coords_inj:
  assumes "valid_grid t p w" "is_rank w r" "is_rank w r'"
    and eq: "rank_coordinates t r = rank_coordinates t r'"
  shows "r = r'"
proof -
  obtain a b where ab: "rank_coordinates t r = Go (a, b) []" "sint a = sint r mod sint t"
      "sint b = sint r div sint t"
    using coords_in_grid [OF assms(1,2)] by blast
  obtain a' b' where ab': "rank_coordinates t r' = Go (a', b') []" "sint a' = sint r' mod sint t"
      "sint b' = sint r' div sint t"
    using coords_in_grid [OF assms(1,3)] by blast
  have "a = a'" "b = b'" using eq ab(1) ab'(1) by simp_all
  then have "sint r mod sint t = sint r' mod sint t" "sint r div sint t = sint r' div sint t"
    using ab ab' by simp_all
  then have "sint r = sint r'"
    by (metis mult_div_mod_eq)
  then show ?thesis by (rule signed_word_eqI)
qed

lemma coords_surj:
  assumes v: "valid_grid t p w" and g: "in_grid t p (a, b)"
  shows "\<exists>r. is_rank w r \<and> rank_coordinates t r = Go (a, b) []"
proof -
  let ?k = "sint b * sint t + sint a"
  have t: "0 < sint t" and p: "0 < sint p" and w: "sint t * sint p = sint w"
    using v by (simp_all add: valid_grid_def)
  have a: "0 \<le> sint a" "sint a < sint t" and b: "0 \<le> sint b" "sint b < sint p"
    using g by (simp_all add: in_grid_def)
  have k0: "0 \<le> ?k" using a b t by simp
  have "sint b + 1 \<le> sint p" using b by simp
  then have "(sint b + 1) * sint t \<le> sint p * sint t"
    using t by (simp add: mult_right_mono)
  then have kw: "?k < sint w" using a w by (simp add: algebra_simps)
  define r :: cint where "r = word_of_int ?k"
  have "int_in_range ?k" using k0 kw sint_lt [of w] by (simp add: int_in_range_def)
  then have sk: "sint r = ?k" unfolding r_def by (rule sint_word_of_int_in_range)
  have rk: "is_rank w r" using k0 kw by (simp add: is_rank_def sk)
  obtain a' b' where ab': "rank_coordinates t r = Go (a', b') []"
      "sint a' = ?k mod sint t" "sint b' = ?k div sint t"
    using coords_in_grid [OF v rk] by (auto simp: sk)
  have "?k mod sint t = sint a" using a by simp
  moreover have "?k div sint t = sint b" using a t by simp
  ultimately have "a' = a" "b' = b" using ab' by (auto intro: signed_word_eqI)
  then show ?thesis using rk ab' by blast
qed

text \<open>
  Claim C4. In a valid grid (positive sizes whose product is the world size) every rank
  \<open>r\<close> gets \<^verbatim>\<open>tensor_para_rank = r % tensor_size\<close> and
  \<^verbatim>\<open>pipeline_para_rank = r / tensor_size\<close>; the pair lies in the grid, different ranks get
  different pairs, and every pair of the grid belongs to some rank. With sizes 2 and 2
  and world size 4, rank 2 gets the pair (0, 1).
\<close>

theorem rank_coordinates_cover_grid:
  assumes "valid_grid t p w"
  shows "(\<forall>r. is_rank w r \<longrightarrow>
            (\<exists>a b. rank_coordinates t r = Go (a, b) [] \<and> sint a = sint r mod sint t
               \<and> sint b = sint r div sint t \<and> in_grid t p (a, b)))
       \<and> (\<forall>r r'. is_rank w r \<and> is_rank w r' \<and> rank_coordinates t r = rank_coordinates t r'
            \<longrightarrow> r = r')
       \<and> (\<forall>a b. in_grid t p (a, b) \<longrightarrow> (\<exists>r. is_rank w r \<and> rank_coordinates t r = Go (a, b) []))
       \<and> (t = 2 \<and> p = 2 \<and> w = 4 \<longrightarrow> rank_coordinates t 2 = Go (0, 1) [])"
proof (intro conjI allI impI)
  fix r assume "is_rank w r"
  then show "\<exists>a b. rank_coordinates t r = Go (a, b) [] \<and> sint a = sint r mod sint t
               \<and> sint b = sint r div sint t \<and> in_grid t p (a, b)"
    using coords_in_grid [OF assms] by blast
next
  fix r r' assume "is_rank w r \<and> is_rank w r' \<and> rank_coordinates t r = rank_coordinates t r'"
  then show "r = r'" using coords_inj [OF assms] by blast
next
  fix a b assume "in_grid t p (a, b)"
  then show "\<exists>r. is_rank w r \<and> rank_coordinates t r = Go (a, b) []"
    using coords_surj [OF assms] by blast
next
  assume "t = 2 \<and> p = 2 \<and> w = 4"
  then show "rank_coordinates t 2 = Go (0, 1) []"
    by (simp add: rank_coordinates_def and_then_def defined_def int_mod_def int_div_def
        int_in_range_def signed_divide_int_def signed_modulo_int_def)
qed

theorem rank_coordinates_cover_grid_witness:
  "valid_grid 2 2 4 \<and> is_rank 4 2 \<and> rank_coordinates 2 2 = Go (0, 1) []
   \<and> (\<exists>r. is_rank 4 r \<and> rank_coordinates 2 r = Go (1, 1) [])"
proof -
  have v: "valid_grid 2 2 4" by (simp add: valid_grid_def)
  have g: "in_grid 2 2 (1, 1)" by (simp add: in_grid_def)
  have r: "is_rank 4 2" by (simp add: is_rank_def)
  show ?thesis using v r g rank_coordinates_cover_grid [OF v] by blast
qed

subsection \<open>World size\<close>

text \<open>
  Claim C5. When \<^verbatim>\<open>tensor_para_size * pipeline_para_size\<close> differs from the world size, a
  run with defined behaviour ends fatally and has made no call that forms a communicator
  group; when the two assertions before it hold and the checked calls succeed, it ends
  with \<^verbatim>\<open>exit(-1)\<close> right after printing the diagnostic of line 121.
\<close>

theorem world_size_mismatch_is_fatal:
  assumes "sint (tensor_para_size cfg) * sint (pipeline_para_size cfg) \<noteq> sint (world_size e)"
    and "ending (multi_gpu_gpt_example cfg e) \<noteq> Stopped Undefined"
  shows "fatal (ending (multi_gpu_gpt_example cfg e))
       \<and> (\<forall>ev\<in>set (trace (multi_gpu_gpt_example cfg e)). \<not> forms_communicator ev)
       \<and> (check_model_shape cfg = Go () [] \<and> (\<forall>m l. call_ok e m l) \<longrightarrow>
            ending (multi_gpu_gpt_example cfg e) = Stopped (Exit (- 1))
            \<and> last (trace (multi_gpu_gpt_example cfg e)) = Printf fmt_world_size [])"
proof -
  let ?rest = "\<lambda>(u::unit). and_then (check_world_size cfg e) (\<lambda>_.
     and_then (rank_coordinates (tensor_para_size cfg) (rank e)) (\<lambda>coords.
     and_then (split_layers cfg) (\<lambda>layers_per_group.
     and_then (form_communicators cfg e coords) (\<lambda>_.
     and_then (read_request cfg e) (\<lambda>inp.
     and_then (create_engine cfg e coords) (\<lambda>_.
     and_then (make_tensors cfg inp) (\<lambda>ts.
     and_then (run_warmup ts) (\<lambda>_.
     and_then (collect_results cfg e inp) (\<lambda>_.
     run_measured cfg e inp ts)))))))))"
  have run: "multi_gpu_gpt_example cfg e =
      and_then (check_model_shape cfg) (\<lambda>_. and_then (query_devices e) ?rest)"
    by (simp add: multi_gpu_gpt_example_def)
  have rest: "?rest () = Halt Undefined [] \<or> ?rest () = Halt (Exit (- 1)) [Printf fmt_world_size []]"
    using check_world_size_mismatch [OF assms(1)] by (auto simp: and_then_def)
  consider (stop) h where "check_model_shape cfg = Halt h []" "h = Undefined \<or> fatal (Stopped h)"
    | (go) "check_model_shape cfg = Go () []"
    using check_model_shape_cases [of cfg] by (auto simp: fatal_def)
  then show ?thesis
  proof cases
    case stop
    then have "multi_gpu_gpt_example cfg e = Halt h []" by (simp add: run and_then_Halt)
    then show ?thesis using stop assms(2) by auto
  next
    case go
    then have run': "multi_gpu_gpt_example cfg e = and_then (query_devices e) ?rest"
      by (simp add: run and_then_Go_nil)
    show ?thesis
    proof (cases "query_devices e")
      case (Halt h es)
      then have r: "multi_gpu_gpt_example cfg e = Halt h es" by (simp add: run' and_then_Halt)
      have "fatal (Stopped h)" using query_devices_ending [of e] assms(2) Halt r by (auto simp: fatal_def)
      moreover have "\<forall>ev\<in>set es. \<not> forms_communicator ev" using query_devices_quiet [of e] Halt by simp
      moreover have "\<not> (\<forall>m l. call_ok e m l)" using query_devices_ok [of e] Halt assms(2) r by auto
      ultimately show ?thesis using r by auto
    next
      case (Go u es)
      then have "multi_gpu_gpt_example cfg e = Halt Undefined es
          \<or> multi_gpu_gpt_example cfg e = Halt (Exit (- 1)) (es @ [Printf fmt_world_size []])"
        using rest by (auto simp: run' and_then_Go)
      then have r: "multi_gpu_gpt_example cfg e = Halt (Exit (- 1)) (es @ [Printf fmt_world_size []])"
        using assms(2) by auto
      have "\<forall>ev\<in>set es. \<not> forms_communicator ev" using query_devices_quiet [of e] Go by simp
      then show ?thesis using r by (simp add: fatal_def forms_communicator_def)
    qed
  qed
qed

lemma small_grid_run:
  "multi_gpu_gpt_example cfg_small_grid env_rank0 =
     Halt (Exit (- 1))
       [MPI_Comm_rank MPI_COMM_WORLD, MPI_Comm_size MPI_COMM_WORLD,
        Printf ''Total ranks: %d.\<newline>'' [I 4], CudaGetDeviceCount, CudaSetDevice 0,
        CudaGetDevice, CudaGetDeviceProperties 0, Printf ''Device %s\<newline>'' [S ''GPU''],
        Printf ''P%d is runing with %d GPU.\<newline>'' [I 0, I 0], Printf fmt_world_size []]"
  by (simp add: multi_gpu_gpt_example_def check_model_shape_def query_devices_def
      check_world_size_def and_then_def prim_defs arith_defs example_defs)

theorem world_size_mismatch_is_fatal_witness:
  "sint (tensor_para_size cfg_small_grid) * sint (pipeline_para_size cfg_small_grid)
     \<noteq> sint (world_size env_rank0)
   \<and> ending (multi_gpu_gpt_example cfg_small_grid env_rank0) = Stopped (Exit (- 1))
   \<and> fatal (ending (multi_gpu_gpt_example cfg_small_grid env_rank0))
   \<and> list_all (\<lambda>ev. \<not> forms_communicator ev)
        (trace (multi_gpu_gpt_example cfg_small_grid env_rank0))"
proof -
  have a: "sint (tensor_para_size cfg_small_grid) * sint (pipeline_para_size cfg_small_grid)
     \<noteq> sint (world_size env_rank0)"
    by (simp add: example_defs)
  have b: "ending (multi_gpu_gpt_example cfg_small_grid env_rank0) \<noteq> Stopped Undefined"
    by (simp add: small_grid_run)
  show ?thesis
    using a world_size_mismatch_is_fatal [OF a b] by (simp add: small_grid_run list_all_iff)
qed

subsection \<open>Model shape\<close>

text \<open>
  Claim C6. \<^verbatim>\<open>head_num % tensor_para_size\<close> is computed in \<^verbatim>\<open>size_t\<close>. When
  \<^verbatim>\<open>head_num\<close> is not divisible by the tensor size (a positive size converts to itself,
  see \<open>size_of_int_pos\<close>), the assertion of line 101 stops the run before it has made
  any call, so before any communicator group exists. A tensor size of 0 is excluded:
  the remainder is then undefined.
\<close>

theorem head_num_not_divisible_is_fatal:
  assumes "tensor_para_size cfg \<noteq> 0"
    and "\<not> unat (size_of_int (tensor_para_size cfg)) dvd unat (head_num cfg)"
  shows "multi_gpu_gpt_example cfg e = Halt (Aborted FT_CHECK 101) []
       \<and> fatal (ending (multi_gpu_gpt_example cfg e))
       \<and> (\<forall>ev\<in>set (trace (multi_gpu_gpt_example cfg e)). \<not> forms_communicator ev)"
proof -
  have nz: "size_of_int (tensor_para_size cfg) \<noteq> 0" using assms(1) by (simp add: size_of_int_eq_0)
  obtain r where r: "size_mod (head_num cfg) (size_of_int (tensor_para_size cfg)) = Some r"
    using nz by (simp add: size_mod_def)
  have "r \<noteq> 0" using size_mod_eq_0 [OF nz r] assms(2) by simp
  then have "check_model_shape cfg = Halt (Aborted FT_CHECK 101) []"
    using r by (simp add: check_model_shape_def and_then_def prim_defs)
  then have "multi_gpu_gpt_example cfg e = Halt (Aborted FT_CHECK 101) []"
    by (simp add: multi_gpu_gpt_example_def and_then_Halt)
  then show ?thesis by (simp add: fatal_def)
qed

theorem head_num_not_divisible_is_fatal_witness:
  "head_num cfg_heads = 16 \<and> tensor_para_size cfg_heads = 3
   \<and> multi_gpu_gpt_example cfg_heads env_rank0 = Halt (Aborted FT_CHECK 101) []"
proof -
  have a: "tensor_para_size cfg_heads \<noteq> 0" by (simp add: example_defs)
  have b: "\<not> unat (size_of_int (tensor_para_size cfg_heads)) dvd unat (head_num cfg_heads)"
    by (simp add: example_defs size_of_int_def)
  show ?thesis
    using head_num_not_divisible_is_fatal [OF a b, of env_rank0] by (simp add: example_defs)
qed

text \<open>
  Claim C7, as stated, at 5 layers on 2 pipeline stages: the run ends at the assertion
  of line 102, and the layers-per-group diagnostic of lines 129 to 132 is not printed.
\<close>

theorem layers_diagnostic_counterexample:
  "decoder_layers cfg_layers = 5 \<and> pipeline_para_size cfg_layers = 2
   \<and> ending (multi_gpu_gpt_example cfg_layers env_rank0) = Stopped (Aborted FT_CHECK 102)
   \<and> \<not> list_ex reports_layers_per_group (trace (multi_gpu_gpt_example cfg_layers env_rank0))"
  by (simp add: multi_gpu_gpt_example_def check_model_shape_def and_then_def prim_defs
      arith_defs example_defs)

text \<open>
  Claim C7, amended. When \<^verbatim>\<open>decoder_layers\<close> is not divisible by the pipeline size, the
  run is stopped by an assertion before it has made any call: the one of line 102, or
  the one of line 101 when \<^verbatim>\<open>head_num\<close> is not divisible either. The layers-per-group
  diagnostic of lines 129 to 132 is printed in no run: once the assertion of line 102
  has passed, the comparison of line 128 cannot fail.
\<close>

theorem layers_not_divisible_stops_at_assertion:
  "(tensor_para_size cfg \<noteq> 0 \<and> pipeline_para_size cfg \<noteq> 0
    \<and> \<not> unat (size_of_int (pipeline_para_size cfg)) dvd unat (decoder_layers cfg) \<longrightarrow>
      multi_gpu_gpt_example cfg e =
        Halt (Aborted FT_CHECK
                (if unat (size_of_int (tensor_para_size cfg)) dvd unat (head_num cfg)
                 then 102 else 101)) []
      \<and> fatal (ending (multi_gpu_gpt_example cfg e)))
   \<and> \<not> list_ex reports_layers_per_group (trace (multi_gpu_gpt_example cfg e))"
proof (intro conjI impI)
  assume a: "tensor_para_size cfg \<noteq> 0 \<and> pipeline_para_size cfg \<noteq> 0
    \<and> \<not> unat (size_of_int (pipeline_para_size cfg)) dvd unat (decoder_layers cfg)"
  have nz: "size_of_int (tensor_para_size cfg) \<noteq> 0" using a by (simp add: size_of_int_eq_0)
  have nz': "size_of_int (pipeline_para_size cfg) \<noteq> 0" using a by (simp add: size_of_int_eq_0)
  obtain r where r: "size_mod (head_num cfg) (size_of_int (tensor_para_size cfg)) = Some r"
    using nz by (simp add: size_mod_def)
  obtain r' where r': "size_mod (decoder_layers cfg) (size_of_int (pipeline_para_size cfg)) = Some r'"
    using nz' by (simp add: size_mod_def)
  have "r' \<noteq> 0" using size_mod_eq_0 [OF nz' r'] a by simp
  then have "check_model_shape cfg =
      Halt (Aborted FT_CHECK
              (if unat (size_of_int (tensor_para_size cfg)) dvd unat (head_num cfg)
               then 102 else 101)) []"
    using r r' size_mod_eq_0 [OF nz r] by (simp add: check_model_shape_def and_then_def prim_defs)
  then show run: "multi_gpu_gpt_example cfg e =
      Halt (Aborted FT_CHECK
              (if unat (size_of_int (tensor_para_size cfg)) dvd unat (head_num cfg)
               then 102 else 101)) []"
    by (simp add: multi_gpu_gpt_example_def and_then_Halt)
  show "fatal (ending (multi_gpu_gpt_example cfg e))" by (simp add: run fatal_def)
next
  show "\<not> list_ex reports_layers_per_group (trace (multi_gpu_gpt_example cfg e))"
    by (rule layers_diagnostic_unreachable)
qed

theorem layers_not_divisible_stops_at_assertion_witness:
  "multi_gpu_gpt_example cfg_layers env_rank2 = Halt (Aborted FT_CHECK 102) []
   \<and> fatal (ending (multi_gpu_gpt_example cfg_layers env_rank2))
   \<and> \<not> list_ex reports_layers_per_group (trace (multi_gpu_gpt_example cfg0 env_rank2))"
proof -
  have a: "tensor_para_size cfg_layers \<noteq> 0 \<and> pipeline_para_size cfg_layers \<noteq> 0
    \<and> \<not> unat (size_of_int (pipeline_para_size cfg_layers)) dvd unat (decoder_layers cfg_layers)"
    by (simp add: example_defs size_of_int_def)
  have d: "unat (size_of_int (tensor_para_size cfg_layers)) dvd unat (head_num cfg_layers)"
    by (simp add: example_defs size_of_int_def)
  have "multi_gpu_gpt_example cfg_layers env_rank2 = Halt (Aborted FT_CHECK 102) []
     \<and> fatal (ending (multi_gpu_gpt_example cfg_layers env_rank2))"
    using layers_not_divisible_stops_at_assertion [of cfg_layers env_rank2] a d
    by (simp add: fatal_def)
  moreover have "\<not> list_ex reports_layers_per_group (trace (multi_gpu_gpt_example cfg0 env_rank2))"
    using layers_not_divisible_stops_at_assertion [of cfg0 env_rank2] by simp
  ultimately show ?thesis by blast
qed

subsection \<open>Total output length\<close>

text \<open>
  Claim C8. Every forward call is handed \<^verbatim>\<open>total_output_len\<close> with the value
  \<^verbatim>\<open>max_input_len + request_output_len\<close>, computed without overflow and not above
  \<^verbatim>\<open>(int)max_seq_len\<close>. When the sum exceeds \<^verbatim>\<open>max_seq_len\<close>, or its conversion to
  \<^verbatim>\<open>int\<close> that line 209 compares with, a run with defined
  behaviour ends fatally with no forward call and no output array allocated; when it
  got through the start-up it ends with \<^verbatim>\<open>exit(-1)\<close> right after the diagnostic of line 210.
  For every request whose sum does not overflow, lines 180 to 212 do exactly this: when
  the sum is not above \<^verbatim>\<open>(int)max_seq_len\<close> the request is accepted with
  \<^verbatim>\<open>total_output_len\<close> equal to the sum, and once the start-up and the engine creation
  have succeeded the three output arrays are allocated with that length and the warm-up
  forward call is made; when the sum is above it, the diagnostic is printed and the
  process exits with status -1.
  With no prompt, 8 requested tokens and a maximum of 16, the length is 8 and the check
  passes; rank 2 of the example grid then allocates its output arrays and returns.
\<close>

theorem total_output_len_is_sum_and_checked:
  "(\<forall>p outs ins. Forward p outs ins \<in> set (trace (multi_gpu_gpt_example cfg e)) \<longrightarrow>
       ins ! 2 = Tensor MEMORY_CPU TYPE_INT32 [1]
                   (Host_total_output_len (file_max_input_len e + request_output_len cfg))
       \<and> sint (file_max_input_len e + request_output_len cfg)
           = sint (file_max_input_len e) + sint (request_output_len cfg)
       \<and> sint (file_max_input_len e + request_output_len cfg)
           \<le> sint (int_of_size (max_seq_len cfg)))
   \<and> ((uint (max_seq_len cfg) < sint (file_max_input_len e) + sint (request_output_len cfg)
        \<or> sint (int_of_size (max_seq_len cfg))
             < sint (file_max_input_len e) + sint (request_output_len cfg))
       \<and> ending (multi_gpu_gpt_example cfg e) \<noteq> Stopped Undefined \<longrightarrow>
         fatal (ending (multi_gpu_gpt_example cfg e))
         \<and> \<not> list_ex is_forward (trace (multi_gpu_gpt_example cfg e))
         \<and> \<not> list_ex allocates_output (trace (multi_gpu_gpt_example cfg e))
         \<and> ((\<exists>c es. startup cfg e = Go c es) \<longrightarrow>
              ending (multi_gpu_gpt_example cfg e) = Stopped (Exit (- 1))
              \<and> last (trace (multi_gpu_gpt_example cfg e)) =
                  Printf fmt_total_output_len
                    [I (file_max_input_len e + request_output_len cfg), L (max_seq_len cfg)]))
   \<and> (int_in_range (sint (file_max_input_len e) + sint (request_output_len cfg))
       \<and> sint (file_max_input_len e) + sint (request_output_len cfg)
           \<le> sint (int_of_size (max_seq_len cfg)) \<longrightarrow>
         (let inp = \<lparr>d_input_ids = (if file_max_input_len e = 0 then nullptr else Dev Input_ids),
                    d_input_lengths =
                      (if file_max_input_len e = 0 then nullptr else Dev Input_lengths),
                    max_input_len = file_max_input_len e,
                    total_output_len = file_max_input_len e + request_output_len cfg\<rparr>
          in read_request cfg e = Go inp
             (Read_start_ids (request_batch_size cfg) end_id (beam_width cfg)
                ''../examples/cpp/multi_gpu_gpt/start_ids.csv''
              # (if file_max_input_len e = 0 then []
                 else [DeviceMalloc Input_ids
                         (request_batch_size cfg * beam_width cfg
                          * size_of_int (file_max_input_len e)),
                       DeviceMalloc Input_lengths (request_batch_size cfg * beam_width cfg),
                       CudaH2Dcpy Input_ids (file_start_ids e)
                         (request_batch_size cfg * beam_width cfg
                          * size_of_int (file_max_input_len e)),
                       CudaH2Dcpy Input_lengths (file_start_lengths e)
                         (request_batch_size cfg * beam_width cfg)]))
           \<and> (\<forall>c es es1. startup cfg e = Go c es \<and> create_engine cfg e c = Go () es1 \<longrightarrow>
                 (ending (multi_gpu_gpt_example cfg e) = Returned
                  \<or> ending (multi_gpu_gpt_example cfg e) = Stopped Undefined)
                 \<and> filter allocates_output (trace (multi_gpu_gpt_example cfg e)) =
                     [DeviceMalloc Output_ids
                        (request_batch_size cfg * beam_width cfg
                         * size_of_int (file_max_input_len e + request_output_len cfg)),
                      DeviceMalloc Parent_ids
                        (request_batch_size cfg * beam_width cfg
                         * size_of_int (file_max_input_len e + request_output_len cfg)),
                      DeviceMalloc Sequence_lengths (request_batch_size cfg * beam_width cfg)]
                 \<and> Forward warmup (output_tensors (build_tensors cfg inp))
                      (input_tensors (build_tensors cfg inp))
                     \<in> set (trace (multi_gpu_gpt_example cfg e)))))
   \<and> (int_in_range (sint (file_max_input_len e) + sint (request_output_len cfg))
       \<and> sint (int_of_size (max_seq_len cfg))
           < sint (file_max_input_len e) + sint (request_output_len cfg) \<longrightarrow>
         read_request cfg e = Halt (Exit (- 1))
           ((Read_start_ids (request_batch_size cfg) end_id (beam_width cfg)
                ''../examples/cpp/multi_gpu_gpt/start_ids.csv''
              # (if file_max_input_len e = 0 then []
                 else [DeviceMalloc Input_ids
                         (request_batch_size cfg * beam_width cfg
                          * size_of_int (file_max_input_len e)),
                       DeviceMalloc Input_lengths (request_batch_size cfg * beam_width cfg),
                       CudaH2Dcpy Input_ids (file_start_ids e)
                         (request_batch_size cfg * beam_width cfg
                          * size_of_int (file_max_input_len e)),
                       CudaH2Dcpy Input_lengths (file_start_lengths e)
                         (request_batch_size cfg * beam_width cfg)]))
            @ [Printf fmt_total_output_len
                 [I (file_max_input_len e + request_output_len cfg), L (max_seq_len cfg)]]))
   \<and> (file_max_input_len e = 0 \<and> request_output_len cfg = 8 \<and> max_seq_len cfg = 16 \<longrightarrow>
         (\<exists>es. read_request cfg e =
            Go \<lparr>d_input_ids = nullptr, d_input_lengths = nullptr, max_input_len = 0,
                total_output_len = 8\<rparr> es))
   \<and> (file_max_input_len env_rank2 = 0 \<and> request_output_len cfg0 = 8 \<and> max_seq_len cfg0 = 16
       \<and> ending (multi_gpu_gpt_example cfg0 env_rank2) = Returned
       \<and> filter allocates_output (trace (multi_gpu_gpt_example cfg0 env_rank2)) =
           [DeviceMalloc Output_ids 8, DeviceMalloc Parent_ids 8,
            DeviceMalloc Sequence_lengths 1])"
proof -
  have A: "(\<forall>p outs ins. Forward p outs ins \<in> set (trace (multi_gpu_gpt_example cfg e)) \<longrightarrow>
       ins ! 2 = Tensor MEMORY_CPU TYPE_INT32 [1]
                   (Host_total_output_len (file_max_input_len e + request_output_len cfg))
       \<and> sint (file_max_input_len e + request_output_len cfg)
           = sint (file_max_input_len e) + sint (request_output_len cfg)
       \<and> sint (file_max_input_len e + request_output_len cfg)
           \<le> sint (int_of_size (max_seq_len cfg)))"
  proof (intro conjI allI impI)
    fix p outs ins
    assume "Forward p outs ins \<in> set (trace (multi_gpu_gpt_example cfg e))"
    then obtain inp es' where r: "read_request cfg e = Go inp es'"
      and i: "ins = input_tensors (build_tensors cfg inp)"
      using forward_in_run by blast
    have s: "int_add (file_max_input_len e) (request_output_len cfg) = Some (total_output_len inp)"
      using read_request_Go(2) [OF r] .
    have tl: "total_output_len inp = file_max_input_len e + request_output_len cfg"
      using s by (rule int_add_Some_eq)
    show "ins ! 2 = Tensor MEMORY_CPU TYPE_INT32 [1]
                     (Host_total_output_len (file_max_input_len e + request_output_len cfg))"
      by (simp add: i build_tensors_def Let_def tl)
    show "sint (file_max_input_len e + request_output_len cfg)
             = sint (file_max_input_len e) + sint (request_output_len cfg)"
      using int_add_Some [OF s] by (simp add: tl)
    show "sint (file_max_input_len e + request_output_len cfg)
             \<le> sint (int_of_size (max_seq_len cfg))"
      using read_request_Go(3) [OF r] by (simp add: tl)
  qed
  have B: "((uint (max_seq_len cfg) < sint (file_max_input_len e) + sint (request_output_len cfg)
        \<or> sint (int_of_size (max_seq_len cfg))
             < sint (file_max_input_len e) + sint (request_output_len cfg))
       \<and> ending (multi_gpu_gpt_example cfg e) \<noteq> Stopped Undefined \<longrightarrow>
         fatal (ending (multi_gpu_gpt_example cfg e))
         \<and> \<not> list_ex is_forward (trace (multi_gpu_gpt_example cfg e))
         \<and> \<not> list_ex allocates_output (trace (multi_gpu_gpt_example cfg e))
         \<and> ((\<exists>c es. startup cfg e = Go c es) \<longrightarrow>
              ending (multi_gpu_gpt_example cfg e) = Stopped (Exit (- 1))
              \<and> last (trace (multi_gpu_gpt_example cfg e)) =
                  Printf fmt_total_output_len
                    [I (file_max_input_len e + request_output_len cfg), L (max_seq_len cfg)]))"
  proof (intro conjI allI impI)
    assume a: "(uint (max_seq_len cfg) < sint (file_max_input_len e) + sint (request_output_len cfg)
          \<or> sint (int_of_size (max_seq_len cfg))
               < sint (file_max_input_len e) + sint (request_output_len cfg))
         \<and> ending (multi_gpu_gpt_example cfg e) \<noteq> Stopped Undefined"
    obtain es' where h: "read_request cfg e = Halt Undefined es'
             \<or> read_request cfg e = Halt (Exit (- 1))
                  (es' @ [Printf fmt_total_output_len
                     [I (file_max_input_len e + request_output_len cfg), L (max_seq_len cfg)]])"
      using read_request_too_long a by blast
    have q: "\<not> list_ex is_forward (trace (startup cfg e))
        \<and> \<not> list_ex allocates_output (trace (startup cfg e))"
      using startup_trace [of _ cfg e] quiet_kinds by (auto simp: list_ex_iff)
    have q': "\<not> list_ex is_forward (trace (read_request cfg e))
        \<and> \<not> list_ex allocates_output (trace (read_request cfg e))"
      using read_request_trace [of _ cfg e] by (auto simp: list_ex_iff)
    have "fatal (ending (multi_gpu_gpt_example cfg e))
           \<and> \<not> list_ex is_forward (trace (multi_gpu_gpt_example cfg e))
           \<and> \<not> list_ex allocates_output (trace (multi_gpu_gpt_example cfg e))
           \<and> ((\<exists>c es. startup cfg e = Go c es) \<longrightarrow>
                ending (multi_gpu_gpt_example cfg e) = Stopped (Exit (- 1))
                \<and> last (trace (multi_gpu_gpt_example cfg e)) =
                    Printf fmt_total_output_len
                      [I (file_max_input_len e + request_output_len cfg), L (max_seq_len cfg)])"
    proof (cases rule: run_cases [of cfg e])
      case (startup_stops h es)
      then show ?thesis using a q startup_stop [OF startup_stops(1)] by (auto simp: fatal_def)
    next
      case (request_stops c es h es'')
      then show ?thesis using a q q' h by (auto simp: fatal_def)
    next
      case (generates c es inp es'')
      then show ?thesis using h by auto
    qed
    then show "fatal (ending (multi_gpu_gpt_example cfg e))"
      and "\<not> list_ex is_forward (trace (multi_gpu_gpt_example cfg e))"
      and "\<not> list_ex allocates_output (trace (multi_gpu_gpt_example cfg e))"
      and "\<exists>c es. startup cfg e = Go c es \<Longrightarrow>
                ending (multi_gpu_gpt_example cfg e) = Stopped (Exit (- 1))"
      and "\<exists>c es. startup cfg e = Go c es \<Longrightarrow> last (trace (multi_gpu_gpt_example cfg e)) =
                    Printf fmt_total_output_len
                      [I (file_max_input_len e + request_output_len cfg), L (max_seq_len cfg)]"
      by blast+
  qed
  have C: "(int_in_range (sint (file_max_input_len e) + sint (request_output_len cfg))
       \<and> sint (file_max_input_len e) + sint (request_output_len cfg)
           \<le> sint (int_of_size (max_seq_len cfg)) \<longrightarrow>
         (let inp = \<lparr>d_input_ids = (if file_max_input_len e = 0 then nullptr else Dev Input_ids),
                    d_input_lengths =
                      (if file_max_input_len e = 0 then nullptr else Dev Input_lengths),
                    max_input_len = file_max_input_len e,
                    total_output_len = file_max_input_len e + request_output_len cfg\<rparr>
          in read_request cfg e = Go inp
             (Read_start_ids (request_batch_size cfg) end_id (beam_width cfg)
                ''../examples/cpp/multi_gpu_gpt/start_ids.csv''
              # (if file_max_input_len e = 0 then []
                 else [DeviceMalloc Input_ids
                         (request_batch_size cfg * beam_width cfg
                          * size_of_int (file_max_input_len e)),
                       DeviceMalloc Input_lengths (request_batch_size cfg * beam_width cfg),
                       CudaH2Dcpy Input_ids (file_start_ids e)
                         (request_batch_size cfg * beam_width cfg
                          * size_of_int (file_max_input_len e)),
                       CudaH2Dcpy Input_lengths (file_start_lengths e)
                         (request_batch_size cfg * beam_width cfg)]))
           \<and> (\<forall>c es es1. startup cfg e = Go c es \<and> create_engine cfg e c = Go () es1 \<longrightarrow>
                 (ending (multi_gpu_gpt_example cfg e) = Returned
                  \<or> ending (multi_gpu_gpt_example cfg e) = Stopped Undefined)
                 \<and> filter allocates_output (trace (multi_gpu_gpt_example cfg e)) =
                     [DeviceMalloc Output_ids
                        (request_batch_size cfg * beam_width cfg
                         * size_of_int (file_max_input_len e + request_output_len cfg)),
                      DeviceMalloc Parent_ids
                        (request_batch_size cfg * beam_width cfg
                         * size_of_int (file_max_input_len e + request_output_len cfg)),
                      DeviceMalloc Sequence_lengths (request_batch_size cfg * beam_width cfg)]
                 \<and> Forward warmup (output_tensors (build_tensors cfg inp))
                      (input_tensors (build_tensors cfg inp))
                     \<in> set (trace (multi_gpu_gpt_example cfg e)))))"
  proof (intro impI)
    assume a: "int_in_range (sint (file_max_input_len e) + sint (request_output_len cfg))
       \<and> sint (file_max_input_len e) + sint (request_output_len cfg)
           \<le> sint (int_of_size (max_seq_len cfg))"
    define inp where "inp = \<lparr>d_input_ids = (if file_max_input_len e = 0 then nullptr else Dev Input_ids),
                    d_input_lengths =
                      (if file_max_input_len e = 0 then nullptr else Dev Input_lengths),
                    max_input_len = file_max_input_len e,
                    total_output_len = file_max_input_len e + request_output_len cfg\<rparr>"
    have r: "read_request cfg e = Go inp
             (Read_start_ids (request_batch_size cfg) end_id (beam_width cfg)
                ''../examples/cpp/multi_gpu_gpt/start_ids.csv''
              # (if file_max_input_len e = 0 then []
                 else [DeviceMalloc Input_ids
                         (request_batch_size cfg * beam_width cfg
                          * size_of_int (file_max_input_len e)),
                       DeviceMalloc Input_lengths (request_batch_size cfg * beam_width cfg),
                       CudaH2Dcpy Input_ids (file_start_ids e)
                         (request_batch_size cfg * beam_width cfg
                          * size_of_int (file_max_input_len e)),
                       CudaH2Dcpy Input_lengths (file_start_lengths e)
                         (request_batch_size cfg * beam_width cfg)]))"
      unfolding inp_def using a by (intro read_request_accepts) simp_all
    have tl: "total_output_len inp = file_max_input_len e + request_output_len cfg"
      by (simp add: inp_def)
    have g: "(ending (multi_gpu_gpt_example cfg e) = Returned
                  \<or> ending (multi_gpu_gpt_example cfg e) = Stopped Undefined)
                 \<and> filter allocates_output (trace (multi_gpu_gpt_example cfg e)) =
                     [DeviceMalloc Output_ids
                        (request_batch_size cfg * beam_width cfg
                         * size_of_int (file_max_input_len e + request_output_len cfg)),
                      DeviceMalloc Parent_ids
                        (request_batch_size cfg * beam_width cfg
                         * size_of_int (file_max_input_len e + request_output_len cfg)),
                      DeviceMalloc Sequence_lengths (request_batch_size cfg * beam_width cfg)]
                 \<and> Forward warmup (output_tensors (build_tensors cfg inp))
                      (input_tensors (build_tensors cfg inp))
                     \<in> set (trace (multi_gpu_gpt_example cfg e))"
      if "startup cfg e = Go c es \<and> create_engine cfg e c = Go () es1" for c es es1
    proof -
      have s: "startup cfg e = Go c es" and ce: "create_engine cfg e c = Go () es1"
        using that by simp_all
      show ?thesis using accepted_run [OF s r ce] by (simp only: tl)
    qed
    show "let inp = \<lparr>d_input_ids = (if file_max_input_len e = 0 then nullptr else Dev Input_ids),
                    d_input_lengths =
                      (if file_max_input_len e = 0 then nullptr else Dev Input_lengths),
                    max_input_len = file_max_input_len e,
                    total_output_len = file_max_input_len e + request_output_len cfg\<rparr>
          in read_request cfg e = Go inp
             (Read_start_ids (request_batch_size cfg) end_id (beam_width cfg)
                ''../examples/cpp/multi_gpu_gpt/start_ids.csv''
              # (if file_max_input_len e = 0 then []
                 else [DeviceMalloc Input_ids
                         (request_batch_size cfg * beam_width cfg
                          * size_of_int (file_max_input_len e)),
                       DeviceMalloc Input_lengths (request_batch_size cfg * beam_width cfg),
                       CudaH2Dcpy Input_ids (file_start_ids e)
                         (request_batch_size cfg * beam_width cfg
                          * size_of_int (file_max_input_len e)),
                       CudaH2Dcpy Input_lengths (file_start_lengths e)
                         (request_batch_size cfg * beam_width cfg)]))
           \<and> (\<forall>c es es1. startup cfg e = Go c es \<and> create_engine cfg e c = Go () es1 \<longrightarrow>
                 (ending (multi_gpu_gpt_example cfg e) = Returned
                  \<or> ending (multi_gpu_gpt_example cfg e) = Stopped Undefined)
                 \<and> filter allocates_output (trace (multi_gpu_gpt_example cfg e)) =
                     [DeviceMalloc Output_ids
                        (request_batch_size cfg * beam_width cfg
                         * size_of_int (file_max_input_len e + request_output_len cfg)),
                      DeviceMalloc Parent_ids
                        (request_batch_size cfg * beam_width cfg
                         * size_of_int (file_max_input_len e + request_output_len cfg)),
                      DeviceMalloc Sequence_lengths (request_batch_size cfg * beam_width cfg)]
                 \<and> Forward warmup (output_tensors (build_tensors cfg inp))
                      (input_tensors (build_tensors cfg inp))
                     \<in> set (trace (multi_gpu_gpt_example cfg e)))"
      unfolding Let_def inp_def [symmetric] using r g by blast
  qed
  have C2: "(int_in_range (sint (file_max_input_len e) + sint (request_output_len cfg))
       \<and> sint (int_of_size (max_seq_len cfg))
           < sint (file_max_input_len e) + sint (request_output_len cfg) \<longrightarrow>
         read_request cfg e = Halt (Exit (- 1))
           ((Read_start_ids (request_batch_size cfg) end_id (beam_width cfg)
                ''../examples/cpp/multi_gpu_gpt/start_ids.csv''
              # (if file_max_input_len e = 0 then []
                 else [DeviceMalloc Input_ids
                         (request_batch_size cfg * beam_width cfg
                          * size_of_int (file_max_input_len e)),
                       DeviceMalloc Input_lengths (request_batch_size cfg * beam_width cfg),
                       CudaH2Dcpy Input_ids (file_start_ids e)
                         (request_batch_size cfg * beam_width cfg
                          * size_of_int (file_max_input_len e)),
                       CudaH2Dcpy Input_lengths (file_start_lengths e)
                         (request_batch_size cfg * beam_width cfg)]))
            @ [Printf fmt_total_output_len
                 [I (file_max_input_len e + request_output_len cfg), L (max_seq_len cfg)]]))"
    using read_request_rejects [of e cfg] by simp
  have D: "(file_max_input_len e = 0 \<and> request_output_len cfg = 8 \<and> max_seq_len cfg = 16 \<longrightarrow>
         (\<exists>es. read_request cfg e =
            Go \<lparr>d_input_ids = nullptr, d_input_lengths = nullptr, max_input_len = 0,
                total_output_len = 8\<rparr> es))"
  proof (intro impI)
    assume "file_max_input_len e = 0 \<and> request_output_len cfg = 8 \<and> max_seq_len cfg = 16"
    then show "\<exists>es. read_request cfg e =
              Go \<lparr>d_input_ids = nullptr, d_input_lengths = nullptr, max_input_len = 0,
                  total_output_len = 8\<rparr> es"
      by (simp add: read_request_def and_then_def prim_defs arith_defs Let_def)
  qed
  have E: "(file_max_input_len env_rank2 = 0 \<and> request_output_len cfg0 = 8 \<and> max_seq_len cfg0 = 16
       \<and> ending (multi_gpu_gpt_example cfg0 env_rank2) = Returned
       \<and> filter allocates_output (trace (multi_gpu_gpt_example cfg0 env_rank2)) =
           [DeviceMalloc Output_ids 8, DeviceMalloc Parent_ids 8,
            DeviceMalloc Sequence_lengths 1])"
  proof (intro conjI)
    show "file_max_input_len env_rank2 = 0" "request_output_len cfg0 = 8" "max_seq_len cfg0 = 16"
      by (simp_all add: example_defs)
    show "ending (multi_gpu_gpt_example cfg0 env_rank2) = Returned"
      by (simp add: example_run_rank2)
    show "filter allocates_output (trace (multi_gpu_gpt_example cfg0 env_rank2)) =
             [DeviceMalloc Output_ids 8, DeviceMalloc Parent_ids 8,
              DeviceMalloc Sequence_lengths 1]"
      by (simp add: example_run_rank2 kind_defs)
  qed
  show ?thesis
    by (rule conjI [OF A conjI [OF B conjI [OF C conjI [OF C2 conjI [OF D E]]]]])
qed

theorem total_output_len_is_sum_and_checked_witness:
  "uint (max_seq_len cfg_long)
     < sint (file_max_input_len env_rank2) + sint (request_output_len cfg_long)
   \<and> ending (multi_gpu_gpt_example cfg_long env_rank2) = Stopped (Exit (- 1))
   \<and> fatal (ending (multi_gpu_gpt_example cfg_long env_rank2))
   \<and> \<not> list_ex is_forward (trace (multi_gpu_gpt_example cfg_long env_rank2))
   \<and> read_request cfg_long env_rank2 =
       Halt (Exit (- 1))
         [Read_start_ids 1 end_id 1 ''../examples/cpp/multi_gpu_gpt/start_ids.csv'',
          Printf fmt_total_output_len [I 32, L 16]]
   \<and> (\<exists>es. read_request cfg0 env_rank2 =
         Go \<lparr>d_input_ids = nullptr, d_input_lengths = nullptr, max_input_len = 0,
             total_output_len = 8\<rparr> es)
   \<and> ins0 ! 2 = Tensor MEMORY_CPU TYPE_INT32 [1] (Host_total_output_len 8)
   \<and> read_request cfg0 env_prompt =
       Go \<lparr>d_input_ids = Dev Input_ids, d_input_lengths = Dev Input_lengths,
           max_input_len = 4, total_output_len = 12\<rparr>
         [Read_start_ids 1 end_id 1 ''../examples/cpp/multi_gpu_gpt/start_ids.csv'',
          DeviceMalloc Input_ids 4, DeviceMalloc Input_lengths 1,
          CudaH2Dcpy Input_ids [818, 262, 938, 3155] 4, CudaH2Dcpy Input_lengths [4] 1]
   \<and> read_request (cfg0\<lparr>request_output_len := 16\<rparr>) env_rank2 =
       Go \<lparr>d_input_ids = nullptr, d_input_lengths = nullptr, max_input_len = 0,
           total_output_len = 16\<rparr>
         [Read_start_ids 1 end_id 1 ''../examples/cpp/multi_gpu_gpt/start_ids.csv'']"
proof -
  have a: "uint (max_seq_len cfg_long)
     < sint (file_max_input_len env_rank2) + sint (request_output_len cfg_long)"
    by (simp add: example_defs)
  have b: "ending (multi_gpu_gpt_example cfg_long env_rank2) \<noteq> Stopped Undefined"
    by (simp add: long_request_run)
  have c: "file_max_input_len env_rank2 = 0 \<and> request_output_len cfg0 = 8 \<and> max_seq_len cfg0 = 16"
    by (simp add: example_defs)
  have d: "Forward warmup outs0 ins0 \<in> set (trace (multi_gpu_gpt_example cfg0 env_rank2))"
    by (simp add: example_run_rank2)
  have e: "file_max_input_len env_rank2 + request_output_len cfg0 = 8"
    by (simp add: example_defs)
  have 1: "ending (multi_gpu_gpt_example cfg_long env_rank2) = Stopped (Exit (- 1))
     \<and> fatal (ending (multi_gpu_gpt_example cfg_long env_rank2))
     \<and> \<not> list_ex is_forward (trace (multi_gpu_gpt_example cfg_long env_rank2))"
    using a b total_output_len_is_sum_and_checked [where cfg = cfg_long and e = env_rank2]
    by (simp add: long_request_run)
  have r1: "int_in_range (sint (file_max_input_len env_rank2) + sint (request_output_len cfg_long))
     \<and> sint (int_of_size (max_seq_len cfg_long))
         < sint (file_max_input_len env_rank2) + sint (request_output_len cfg_long)"
    by (simp add: example_defs int_in_range_def int_of_size_def)
  have 2: "read_request cfg_long env_rank2 =
       Halt (Exit (- 1))
         [Read_start_ids 1 end_id 1 ''../examples/cpp/multi_gpu_gpt/start_ids.csv'',
          Printf fmt_total_output_len [I 32, L 16]]"
    using r1 total_output_len_is_sum_and_checked [where cfg = cfg_long and e = env_rank2]
    by (simp add: example_defs)
  have 3: "(\<exists>es. read_request cfg0 env_rank2 =
         Go \<lparr>d_input_ids = nullptr, d_input_lengths = nullptr, max_input_len = 0,
             total_output_len = 8\<rparr> es)
     \<and> ins0 ! 2 = Tensor MEMORY_CPU TYPE_INT32 [1] (Host_total_output_len 8)"
    using c d total_output_len_is_sum_and_checked [where cfg = cfg0 and e = env_rank2]
    by (simp add: e)
  have r4: "int_in_range (sint (file_max_input_len env_prompt) + sint (request_output_len cfg0))
     \<and> sint (file_max_input_len env_prompt) + sint (request_output_len cfg0)
         \<le> sint (int_of_size (max_seq_len cfg0))"
    by (simp add: example_defs int_in_range_def int_of_size_def)
  have 4: "read_request cfg0 env_prompt =
       Go \<lparr>d_input_ids = Dev Input_ids, d_input_lengths = Dev Input_lengths,
           max_input_len = 4, total_output_len = 12\<rparr>
         [Read_start_ids 1 end_id 1 ''../examples/cpp/multi_gpu_gpt/start_ids.csv'',
          DeviceMalloc Input_ids 4, DeviceMalloc Input_lengths 1,
          CudaH2Dcpy Input_ids [818, 262, 938, 3155] 4, CudaH2Dcpy Input_lengths [4] 1]"
    using r4 total_output_len_is_sum_and_checked [where cfg = cfg0 and e = env_prompt]
    by (simp add: example_defs Let_def size_of_int_def)
  have r5: "int_in_range (sint (file_max_input_len env_rank2)
                          + sint (request_output_len (cfg0\<lparr>request_output_len := 16\<rparr>)))
     \<and> sint (file_max_input_len env_rank2)
           + sint (request_output_len (cfg0\<lparr>request_output_len := 16\<rparr>))
         \<le> sint (int_of_size (max_seq_len (cfg0\<lparr>request_output_len := 16\<rparr>)))"
    by (simp add: example_defs int_in_range_def int_of_size_def)
  have 5: "read_request (cfg0\<lparr>request_output_len := 16\<rparr>) env_rank2 =
       Go \<lparr>d_input_ids = nullptr, d_input_lengths = nullptr, max_input_len = 0,
           total_output_len = 16\<rparr>
         [Read_start_ids 1 end_id 1 ''../examples/cpp/multi_gpu_gpt/start_ids.csv'']"
    using r5 total_output_len_is_sum_and_checked
      [where cfg = "cfg0\<lparr>request_output_len := 16\<rparr>" and e = env_rank2]
    by (simp add: example_defs Let_def)
  show ?thesis using a 1 2 3 4 5 by (intro conjI) (simp_all add: fatal_def)
qed


subsection \<open>Input buffers\<close>












subsection \<open>Result file that cannot be opened\<close>

text \<open>
  Claim C10. On rank 0, when the run gets to the result file and the file cannot be
  opened, the warning of line 337 is printed, nothing is copied from the device or
  written to the file, and the run goes on and returns: right after the warning come
  the calls of lines 366 to 401, with the measured forward call between the two clock
  readings and the latency line after them. Nothing before the attempt to open the file
  belongs to the result collection, the measured pass or the report.
\<close>

theorem file_open_failure_is_not_fatal:
  assumes "rank e = 0" and "\<not> outFile_is_open e"
    and "Ofstream_open ''out'' \<in> set (trace (multi_gpu_gpt_example cfg e))"
  shows "ending (multi_gpu_gpt_example cfg e) = Returned
       \<and> \<not> list_ex copies_or_writes (trace (multi_gpu_gpt_example cfg e))
       \<and> (\<exists>pre inp es'. read_request cfg e = Go inp es'
            \<and> trace (multi_gpu_gpt_example cfg e) =
                pre @ [Ofstream_open ''out'', Printf fmt_cannot_write [S ''out''],
                       MPI_Barrier MPI_COMM_WORLD, CudaDeviceSynchronize,
                       Gettimeofday tv_start_var,
                       Nvtx_setScope ''total_time'', PUSH_RANGE ''total time'',
                       Forward measured (output_tensors (build_tensors cfg inp))
                         (input_tensors (build_tensors cfg inp)),
                       CudaDeviceSynchronize, MPI_Barrier MPI_COMM_WORLD, POP_RANGE,
                       Nvtx_resetScope,
                       Gettimeofday tv_end_var, CudaProfilerStop,
                       Printf fmt_info
                         [L (request_batch_size cfg), L (beam_width cfg), L (head_num cfg),
                          L (size_per_head cfg), I (total_output_len inp),
                          L (decoder_layers cfg), L (vocab_size cfg),
                          Elapsed_ms (tv_start e) (tv_end e) ite],
                       NcclCommDestroy tensor_para, NcclCommDestroy pipeline_para,
                       Delete_cublas_algo_map, Delete_cublas_wrapper_mutex]
            \<and> \<not> list_ex collects_results pre \<and> \<not> list_ex in_measured_pass pre
            \<and> \<not> list_ex reports_latency pre)"
proof -
  obtain pre0 col0 meas where t0: "trace (multi_gpu_gpt_example cfg e) = pre0 @ col0 @ meas"
    and pre0: "\<forall>ev\<in>set pre0. \<not> collects_results ev \<and> \<not> in_measured_pass ev"
    and alt: "col0 = [] \<and> meas = [] \<and> ending (multi_gpu_gpt_example cfg e) \<noteq> Returned
        \<or> (\<exists>inp h. collect_results cfg e inp = Halt h col0 \<and> meas = []
              \<and> ending (multi_gpu_gpt_example cfg e) = Stopped h)
        \<or> (\<exists>inp. collect_results cfg e inp = Go () col0
              \<and> meas = trace (run_measured cfg e inp (build_tensors cfg inp))
              \<and> ending (multi_gpu_gpt_example cfg e) = Returned)"
    using run_phases [of cfg e] by blast
  have m: "\<forall>ev\<in>set meas. \<not> collects_results ev"
    using alt run_measured_trace by auto
  have "collects_results (Ofstream_open ''out'')" by (simp add: kind_defs)
  then have "Ofstream_open ''out'' \<in> set col0" using assms(3) pre0 m by (auto simp: t0)
  then have "col0 \<noteq> []" by auto
  then have ret: "ending (multi_gpu_gpt_example cfg e) = Returned"
    using alt collect_results_no_file [OF assms(1,2), of cfg] by auto
  obtain pre inp es' col where r: "read_request cfg e = Go inp es'"
    and c: "collect_results cfg e inp = Go () col"
    and t: "trace (multi_gpu_gpt_example cfg e) =
               pre @ col @ trace (run_measured cfg e inp (build_tensors cfg inp))"
    and p: "\<forall>ev\<in>set pre. \<not> collects_results ev \<and> \<not> in_measured_pass ev \<and> \<not> reports_latency ev"
    using returned_run_order [OF ret] by blast
  have col: "col = [Ofstream_open ''out'', Printf fmt_cannot_write [S ''out'']]"
    using c collect_results_no_file [OF assms(1,2), of cfg inp] by simp
  have q: "\<not> list_ex collects_results pre" "\<not> list_ex in_measured_pass pre"
    "\<not> list_ex reports_latency pre"
    using p by (auto simp: list_ex_iff)
  have "\<forall>ev\<in>set pre. \<not> copies_or_writes ev" using p copies_or_writes_kinds by blast
  then have cw: "\<not> list_ex copies_or_writes pre" by (simp add: list_ex_iff)
  have t': "trace (multi_gpu_gpt_example cfg e) =
                pre @ [Ofstream_open ''out'', Printf fmt_cannot_write [S ''out''],
                       MPI_Barrier MPI_COMM_WORLD, CudaDeviceSynchronize,
                       Gettimeofday tv_start_var,
                       Nvtx_setScope ''total_time'', PUSH_RANGE ''total time'',
                       Forward measured (output_tensors (build_tensors cfg inp))
                         (input_tensors (build_tensors cfg inp)),
                       CudaDeviceSynchronize, MPI_Barrier MPI_COMM_WORLD, POP_RANGE,
                       Nvtx_resetScope,
                       Gettimeofday tv_end_var, CudaProfilerStop,
                       Printf fmt_info
                         [L (request_batch_size cfg), L (beam_width cfg), L (head_num cfg),
                          L (size_per_head cfg), I (total_output_len inp),
                          L (decoder_layers cfg), L (vocab_size cfg),
                          Elapsed_ms (tv_start e) (tv_end e) ite],
                       NcclCommDestroy tensor_para, NcclCommDestroy pipeline_para,
                       Delete_cublas_algo_map, Delete_cublas_wrapper_mutex]"
    by (simp add: t col run_measured_eq)
  have cw': "\<not> list_ex copies_or_writes (trace (multi_gpu_gpt_example cfg e))"
    unfolding t' using cw by (simp add: kind_defs)
  have ex: "\<exists>pre inp es'. read_request cfg e = Go inp es'
            \<and> trace (multi_gpu_gpt_example cfg e) =
                pre @ [Ofstream_open ''out'', Printf fmt_cannot_write [S ''out''],
                       MPI_Barrier MPI_COMM_WORLD, CudaDeviceSynchronize,
                       Gettimeofday tv_start_var,
                       Nvtx_setScope ''total_time'', PUSH_RANGE ''total time'',
                       Forward measured (output_tensors (build_tensors cfg inp))
                         (input_tensors (build_tensors cfg inp)),
                       CudaDeviceSynchronize, MPI_Barrier MPI_COMM_WORLD, POP_RANGE,
                       Nvtx_resetScope,
                       Gettimeofday tv_end_var, CudaProfilerStop,
                       Printf fmt_info
                         [L (request_batch_size cfg), L (beam_width cfg), L (head_num cfg),
                          L (size_per_head cfg), I (total_output_len inp),
                          L (decoder_layers cfg), L (vocab_size cfg),
                          Elapsed_ms (tv_start e) (tv_end e) ite],
                       NcclCommDestroy tensor_para, NcclCommDestroy pipeline_para,
                       Delete_cublas_algo_map, Delete_cublas_wrapper_mutex]
            \<and> \<not> list_ex collects_results pre \<and> \<not> list_ex in_measured_pass pre
            \<and> \<not> list_ex reports_latency pre"
    using r t' q by (intro exI [of _ pre] exI [of _ inp] exI [of _ es']) simp
  show ?thesis using ret cw' ex by (intro conjI)
qed

lemma no_file_run_opens:
  "Ofstream_open ''out'' \<in> set (trace (multi_gpu_gpt_example cfg0 env_no_file))"
  by (simp add: run_defs)

theorem file_open_failure_is_not_fatal_witness:
  "rank env_no_file = 0 \<and> \<not> outFile_is_open env_no_file
   \<and> ending (multi_gpu_gpt_example cfg0 env_no_file) = Returned
   \<and> \<not> list_ex copies_or_writes (trace (multi_gpu_gpt_example cfg0 env_no_file))
   \<and> (\<exists>pre ins. trace (multi_gpu_gpt_example cfg0 env_no_file) =
         pre @ [Ofstream_open ''out'', Printf fmt_cannot_write [S ''out''],
                MPI_Barrier MPI_COMM_WORLD, CudaDeviceSynchronize,
                Gettimeofday tv_start_var,
                Nvtx_setScope ''total_time'', PUSH_RANGE ''total time'',
                Forward measured outs0 ins,
                CudaDeviceSynchronize, MPI_Barrier MPI_COMM_WORLD, POP_RANGE,
                Nvtx_resetScope,
                Gettimeofday tv_end_var, CudaProfilerStop,
                Printf fmt_info [L 1, L 1, L 16, L 64, I 8, L 4, L 50304,
                                 Elapsed_ms (10, 0) (11, 500) ite],
                NcclCommDestroy tensor_para, NcclCommDestroy pipeline_para,
                Delete_cublas_algo_map, Delete_cublas_wrapper_mutex])"
proof -
  have a: "rank env_no_file = 0" and b: "\<not> outFile_is_open env_no_file"
    by (simp_all add: example_defs)
  obtain pre inp es' where r: "read_request cfg0 env_no_file = Go inp es'"
    and t: "trace (multi_gpu_gpt_example cfg0 env_no_file) =
                pre @ [Ofstream_open ''out'', Printf fmt_cannot_write [S ''out''],
                       MPI_Barrier MPI_COMM_WORLD, CudaDeviceSynchronize,
                       Gettimeofday tv_start_var,
                       Nvtx_setScope ''total_time'', PUSH_RANGE ''total time'',
                       Forward measured (output_tensors (build_tensors cfg0 inp))
                         (input_tensors (build_tensors cfg0 inp)),
                       CudaDeviceSynchronize, MPI_Barrier MPI_COMM_WORLD, POP_RANGE,
                       Nvtx_resetScope,
                       Gettimeofday tv_end_var, CudaProfilerStop,
                       Printf fmt_info
                         [L (request_batch_size cfg0), L (beam_width cfg0), L (head_num cfg0),
                          L (size_per_head cfg0), I (total_output_len inp),
                          L (decoder_layers cfg0), L (vocab_size cfg0),
                          Elapsed_ms (tv_start env_no_file) (tv_end env_no_file) ite],
                       NcclCommDestroy tensor_para, NcclCommDestroy pipeline_para,
                       Delete_cublas_algo_map, Delete_cublas_wrapper_mutex]"
    and ret: "ending (multi_gpu_gpt_example cfg0 env_no_file) = Returned"
    and cw: "\<not> list_ex copies_or_writes (trace (multi_gpu_gpt_example cfg0 env_no_file))"
    using file_open_failure_is_not_fatal [OF a b no_file_run_opens] by blast
  have tl: "total_output_len inp = 8"
    using int_add_Some_eq [OF read_request_Go(2) [OF r]] by (simp add: example_defs)
  have o: "output_tensors (build_tensors cfg0 inp) = outs0"
    by (simp add: build_tensors_def Let_def tl outs0_def example_defs size_of_int_def)
  have t2: "trace (multi_gpu_gpt_example cfg0 env_no_file) =
         pre @ [Ofstream_open ''out'', Printf fmt_cannot_write [S ''out''],
                MPI_Barrier MPI_COMM_WORLD, CudaDeviceSynchronize,
                Gettimeofday tv_start_var,
                Nvtx_setScope ''total_time'', PUSH_RANGE ''total time'',
                Forward measured outs0 (input_tensors (build_tensors cfg0 inp)),
                CudaDeviceSynchronize, MPI_Barrier MPI_COMM_WORLD, POP_RANGE,
                Nvtx_resetScope,
                Gettimeofday tv_end_var, CudaProfilerStop,
                Printf fmt_info [L 1, L 1, L 16, L 64, I 8, L 4, L 50304,
                                 Elapsed_ms (10, 0) (11, 500) ite],
                NcclCommDestroy tensor_para, NcclCommDestroy pipeline_para,
                Delete_cublas_algo_map, Delete_cublas_wrapper_mutex]"
    unfolding t o tl by (simp add: example_defs)
  show ?thesis using a b ret cw t2 by blast
qed


end
